theory Spec2Isabelle
  imports Complex_Main "HOL-Library.Log_Nat"
begin

section \<open>Data model\<close>

text \<open>
  The embedding follows \<^verbatim>\<open>src/functions/signal-analysis.ts\<close>,
  \<^verbatim>\<open>src/lib/lunarcrush.ts\<close> and \<^verbatim>\<open>src/lib/gemini.ts\<close>.
  Counters and ranks hold integers and are modelled as \<^typ>\<open>int\<close>, scores and prices
  as \<^typ>\<open>rat\<close>; the quotients and the product the code computes are rounded as
  JavaScript rounds them. Fields read from the clock (\<^verbatim>\<open>Date.now()\<close>:
  ids, timestamps, durations) are left out of the records; no operation below reads them.
  A thrown exception is a value \<open>Inl e\<close> of a sum type, a \<^verbatim>\<open>try/catch\<close> is a case
  distinction on it.
\<close>

datatype error = Error string | PostgrestError | TypeError

datatype decision = BUY | SELL | HOLD

text \<open>\<^verbatim>\<open>interface TopCoin\<close> of \<^verbatim>\<open>lunarcrush.ts\<close>.\<close>

record TopCoin =
  coin_symbol :: string
  coin_name :: string
  coin_altRank :: int
  coin_galaxyScore :: rat
  coin_price :: rat
  coin_marketCap :: rat
  coin_percentChange24h :: rat

text \<open>\<^verbatim>\<open>SocialMetrics\<close>, as \<^verbatim>\<open>getSocialMetrics\<close> builds it.\<close>

record SocialMetrics =
  m_symbol :: string
  mentions :: int
  interactions :: int
  creators :: int
  altRank :: int
  galaxyScore :: rat

text \<open>
  The \<^verbatim>\<open>reasoning\<close> text of a signal. The two templates of the rule-based fallback
  interpolate numbers with \<^verbatim>\<open>toFixed\<close> and \<^verbatim>\<open>toLocaleString\<close>; the model keeps
  which template was used and the indicator count it prints.
\<close>

datatype reasoning =
  ReasonText string
  | StrongSocialSignals nat
  | WeakSocialSignals nat

record TradingSignal =
  sig_symbol :: string
  signal :: decision
  confidence :: int
  sig_reasoning :: reasoning
  sig_metrics :: SocialMetrics

subsection \<open>Numbers\<close>

text \<open>
  A JavaScript number is a binary64 value, and an arithmetic operation returns the exact
  result rounded to the nearest binary64 value, a tie going to the value whose
  significand is even. \<open>round_ties_even\<close> rounds to an integer in that way;
  \<open>ilog2 x\<close> is the exponent of a positive \<open>x\<close>, the \<open>e\<close> with
  \<open>2 powi e \<le> x < 2 powi (e + 1)\<close>; \<open>binary64 x\<close> rounds \<open>x\<close> to a multiple of the
  distance between the binary64 values around it, which is \<open>2 powi (e - 52)\<close> (53
  significant bits), and \<open>2 powi (- 1074)\<close> below the normal range. The divisors
  below are at least 1 and the product is at most 100, so that no operation overflows
  or divides by zero: \<^verbatim>\<open>Infinity\<close> and \<^verbatim>\<open>NaN\<close> do not arise.
\<close>

definition round_ties_even :: "rat \<Rightarrow> int" where
  "round_ties_even x =
     (let f = \<lfloor>x\<rfloor>; d = x - of_int f
      in if d < 1 / 2 then f else if 1 / 2 < d then f + 1 else if even f then f else f + 1)"

definition ilog2 :: "rat \<Rightarrow> int" where
  "ilog2 x =
     (case quotient_of x of
        (p, q) \<Rightarrow>
          let k = bitlen p - bitlen q
          in if 2 powi k \<le> x then k else k - 1)"

definition binary64 :: "rat \<Rightarrow> rat" where
  "binary64 x =
     (if x = 0 then 0
      else let ulp = 2 powi (max (ilog2 \<bar>x\<bar>) (- 1022) - 52)
           in of_int (round_ties_even (x / ulp)) * ulp)"

text \<open>The operators \<^verbatim>\<open>/\<close> and \<^verbatim>\<open>*\<close>.\<close>

definition js_divide :: "rat \<Rightarrow> rat \<Rightarrow> rat" where
  "js_divide a b = binary64 (a / b)"

definition js_multiply :: "rat \<Rightarrow> rat \<Rightarrow> rat" where
  "js_multiply a b = binary64 (a * b)"

section \<open>The data capability: \<^verbatim>\<open>lunarcrush.ts\<close>\<close>

text \<open>
  The body of a \<^verbatim>\<open>TopicResponse\<close>. A field that is \<^verbatim>\<open>undefined\<close> or \<^verbatim>\<open>null\<close>
  at run time is \<open>None\<close>; \<^verbatim>\<open>x || 0\<close> turns it (and \<open>0\<close>) into \<open>0\<close>.
\<close>

record topic_fields =
  num_posts :: "int option"
  interactions_24h :: "int option"
  num_contributors :: "int option"

record TopicResponse =
  response_data :: "topic_fields option"

record topicData =
  td_num_posts :: int
  td_interactions_24h :: int
  td_num_contributors :: int

definition or_zero :: "int option \<Rightarrow> int" where
  "or_zero v = (case v of None \<Rightarrow> 0 | Some n \<Rightarrow> if n = 0 then 0 else n)"

definition topic_endpoint :: "string \<Rightarrow> string" where
  "topic_endpoint symbol = ''/topic/'' @ symbol @ ''/v1''"

text \<open>
  \<^verbatim>\<open>fetchTopicData\<close>: \<open>makeRequest\<close> is the HTTP request (it throws on a missing API
  key, a network error, a timeout or a non-2xx status). A response without a
  \<^verbatim>\<open>data\<close> object throws inside the \<^verbatim>\<open>try\<close>; the \<^verbatim>\<open>catch\<close> returns zeros.
\<close>

definition fetchTopicData :: "(string \<Rightarrow> error + TopicResponse) \<Rightarrow> string \<Rightarrow> error + topicData" where
  "fetchTopicData makeRequest symbol =
     (case (case makeRequest (topic_endpoint symbol) of
              Inl e \<Rightarrow> Inl e
            | Inr response \<Rightarrow>
                (case response_data response of
                   None \<Rightarrow> Inl (Error (''No topic data returned for '' @ symbol))
                 | Some d \<Rightarrow>
                     Inr \<lparr>td_num_posts = or_zero (num_posts d),
                          td_interactions_24h = or_zero (interactions_24h d),
                          td_num_contributors = or_zero (num_contributors d)\<rparr>)) of
        Inl e \<Rightarrow> Inr \<lparr>td_num_posts = 0, td_interactions_24h = 0, td_num_contributors = 0\<rparr>
      | Inr t \<Rightarrow> Inr t)"

text \<open>\<^verbatim>\<open>getSocialMetrics\<close>: its \<^verbatim>\<open>catch\<close> logs and rethrows.\<close>

definition getSocialMetrics :: "(string \<Rightarrow> error + TopicResponse) \<Rightarrow> TopCoin \<Rightarrow> error + SocialMetrics" where
  "getSocialMetrics makeRequest coin =
     (case (case fetchTopicData makeRequest (coin_symbol coin) of
              Inl e \<Rightarrow> Inl e
            | Inr t \<Rightarrow>
                Inr \<lparr>m_symbol = coin_symbol coin,
                     mentions = or_zero (Some (td_num_posts t)),
                     interactions = or_zero (Some (td_interactions_24h t)),
                     creators = or_zero (Some (td_num_contributors t)),
                     altRank = coin_altRank coin,
                     galaxyScore = coin_galaxyScore coin\<rparr>) of
        Inl e \<Rightarrow> Inl e
      | Inr m \<Rightarrow> Inr m)"

section \<open>The scoring capability: \<^verbatim>\<open>gemini.ts\<close>\<close>

text \<open>
  What the three regular expressions of \<^verbatim>\<open>parseSignalResponse\<close> find in the model's
  text: the decision word (upper-cased), the digits after \<^verbatim>\<open>CONFIDENCE:\<close> as
  \<^verbatim>\<open>parseInt\<close> reads them, and the trimmed text after \<^verbatim>\<open>REASONING:\<close>.
  \<open>None\<close> is a pattern without a match.
\<close>

record ai_reply =
  signalMatch :: "decision option"
  confidenceMatch :: "nat option"
  reasoningMatch :: "string option"

text \<open>
  The Gemini client: the API key of the environment and the model call
  (\<^verbatim>\<open>generateContent\<close>, \<^verbatim>\<open>result.response\<close>, \<^verbatim>\<open>response.text()\<close>), which throws or
  returns the text; \<open>Inr None\<close> is a value that is not a string at run time, on which
  \<^verbatim>\<open>aiResponse.match\<close> throws a \<^verbatim>\<open>TypeError\<close>. The prompt is built from the symbol and
  the metrics alone (the workflow passes no history), so the call is a function of them.
\<close>

record gemini =
  apiKey :: "string option"
  generateContent :: "string \<Rightarrow> SocialMetrics \<Rightarrow> error + ai_reply option"

definition getGeminiClient :: "gemini \<Rightarrow> error + unit" where
  "getGeminiClient g =
     (case apiKey g of
        None \<Rightarrow> Inl (Error ''GOOGLE_GEMINI_API_KEY environment variable is required'')
      | Some k \<Rightarrow>
          if k = [] then Inl (Error ''GOOGLE_GEMINI_API_KEY environment variable is required'')
          else Inr ())"

text \<open>
  The quotient of line 125: the counters are the integers their binary64 values hold,
  and the divisor \<^verbatim>\<open>Math.max(metrics.mentions, 1)\<close> is at least 1.
\<close>

definition engagementRatio :: "SocialMetrics \<Rightarrow> rat" where
  "engagementRatio metrics =
     js_divide (of_int (interactions metrics)) (of_int (max (mentions metrics) 1))"

definition positiveSignals :: "SocialMetrics \<Rightarrow> nat" where
  "positiveSignals metrics =
     length (filter (\<lambda>b. b)
       [engagementRatio metrics > 100,
        altRank metrics < 100,
        galaxyScore metrics > 70,
        creators metrics > 1000])"

definition createFallbackSignal :: "string \<Rightarrow> SocialMetrics \<Rightarrow> TradingSignal" where
  "createFallbackSignal symbol metrics =
     (let n = positiveSignals metrics in
      if n \<ge> 3 then
        \<lparr>sig_symbol = symbol, signal = BUY, confidence = 60 + int n * 10,
         sig_reasoning = StrongSocialSignals n, sig_metrics = metrics\<rparr>
      else if n \<le> 1 then
        \<lparr>sig_symbol = symbol, signal = SELL, confidence = 60,
         sig_reasoning = WeakSocialSignals n, sig_metrics = metrics\<rparr>
      else
        \<lparr>sig_symbol = symbol, signal = HOLD, confidence = 50,
         sig_reasoning = ReasonText ''Fallback analysis based on social metrics'',
         sig_metrics = metrics\<rparr>)"

text \<open>
  \<^verbatim>\<open>parseSignalResponse\<close>: the \<^verbatim>\<open>try\<close> body throws only when the response is not a
  string; its \<^verbatim>\<open>catch\<close> returns the fallback signal. A pattern without a match takes
  the default after \<^verbatim>\<open>||\<close>; an empty trimmed reasoning is falsy and takes it too.
\<close>

definition parseSignalResponse :: "ai_reply option \<Rightarrow> string \<Rightarrow> SocialMetrics \<Rightarrow> TradingSignal" where
  "parseSignalResponse aiResponse symbol metrics =
     (case (case aiResponse of None \<Rightarrow> Inl TypeError | Some r \<Rightarrow> Inr r) of
        Inl e \<Rightarrow> createFallbackSignal symbol metrics
      | Inr r \<Rightarrow>
          \<lparr>sig_symbol = symbol,
           signal = (case signalMatch r of None \<Rightarrow> HOLD | Some d \<Rightarrow> d),
           confidence = max 0 (min 100 (case confidenceMatch r of None \<Rightarrow> 50 | Some c \<Rightarrow> int c)),
           sig_reasoning =
             (case reasoningMatch r of
                None \<Rightarrow> ReasonText ''Analysis based on social metrics''
              | Some t \<Rightarrow>
                  if t = [] then ReasonText ''Analysis based on social metrics''
                  else ReasonText t),
           sig_metrics = metrics\<rparr>)"

text \<open>The \<^verbatim>\<open>try\<close> body of \<^verbatim>\<open>generateTradingSignal\<close>: any step of it may throw.\<close>

definition callModel :: "gemini \<Rightarrow> string \<Rightarrow> SocialMetrics \<Rightarrow> error + TradingSignal" where
  "callModel g symbol currentMetrics =
     (case getGeminiClient g of
        Inl e \<Rightarrow> Inl e
      | Inr u \<Rightarrow>
          (case generateContent g symbol currentMetrics of
             Inl e \<Rightarrow> Inl e
           | Inr analysis \<Rightarrow> Inr (parseSignalResponse analysis symbol currentMetrics)))"

definition generateTradingSignal :: "gemini \<Rightarrow> string \<Rightarrow> SocialMetrics \<Rightarrow> error + TradingSignal" where
  "generateTradingSignal g symbol currentMetrics =
     (case callModel g symbol currentMetrics of
        Inl e \<Rightarrow> Inr (createFallbackSignal symbol currentMetrics)
      | Inr s \<Rightarrow> Inr s)"

section \<open>The job store\<close>

text \<open>
  A row of the table \<^verbatim>\<open>analysis_jobs\<close>. \<^verbatim>\<open>signals_generated\<close> and
  \<^verbatim>\<open>alerts_generated\<close> are unset until the final update writes them. The copy of
  the event data, the timestamps and the duration are left out.
\<close>

record job_row =
  job_id :: string
  status :: string
  current_step :: string
  step_message :: string
  progress_percentage :: int
  signals_generated :: "nat option"
  alerts_generated :: "nat option"

text \<open>
  What a call of the Supabase client does: it succeeds, it returns an \<^verbatim>\<open>error\<close>
  object, or it throws.
\<close>

datatype db_outcome = DbOk | DbError | DbThrows

text \<open>
  The behaviour of the store during one run: the outcome of the insert into
  \<^verbatim>\<open>analysis_jobs\<close>, of the \<open>n\<close>-th update of \<^verbatim>\<open>analysis_jobs\<close> (counted from 0),
  and of the insert of the signal at loop index \<open>i\<close> into \<^verbatim>\<open>trading_signals\<close>.
\<close>

record supabase =
  insertJob :: db_outcome
  updateJob :: "nat \<Rightarrow> db_outcome"
  insertSignal :: "nat \<Rightarrow> TradingSignal \<Rightarrow> db_outcome"

text \<open>The three console lines of the selection loop, one per candidate tested.\<close>

datatype select_log = HasCompleteData string | NoSocialData string | FailedDataCheck string

text \<open>
  The state a run works on: the two tables, the number of updates sent to
  \<^verbatim>\<open>analysis_jobs\<close> so far, the successive rows written to \<^verbatim>\<open>analysis_jobs\<close>
  (what an observer polling the job sees, oldest first) and the console lines of the
  selection loop.
\<close>

record db =
  analysis_jobs :: "string \<rightharpoonup> job_row"
  trading_signals :: "TradingSignal list"
  updates :: nat
  history :: "job_row list"
  console :: "select_log list"

definition fresh_db :: db where
  "fresh_db = \<lparr>analysis_jobs = Map.empty, trading_signals = [], updates = 0,
               history = [], console = []\<rparr>"

text \<open>\<^verbatim>\<open>.update(fields).eq('id', jobId)\<close>, when the store accepts it.\<close>

definition update_row :: "string \<Rightarrow> (job_row \<Rightarrow> job_row) \<Rightarrow> db \<Rightarrow> db" where
  "update_row jobId f w =
     (case analysis_jobs w jobId of
        None \<Rightarrow> w
      | Some r \<Rightarrow> w\<lparr>analysis_jobs := (analysis_jobs w)(jobId \<mapsto> f r),
                    history := history w @ [f r]\<rparr>)"

text \<open>
  \<^verbatim>\<open>Math.round\<close>: the nearest integer, a tie going up. The percentage is
  \<^verbatim>\<open>Math.round((stepNumber / 7) * 100)\<close>, its quotient and its product rounded to
  binary64.
\<close>

definition js_round :: "rat \<Rightarrow> int" where
  "js_round x = \<lfloor>x + 1 / 2\<rfloor>"

definition progressPercentage :: "nat \<Rightarrow> int" where
  "progressPercentage stepNumber =
     js_round (js_multiply (js_divide (of_nat stepNumber) 7) 100)"

text \<open>
  \<^verbatim>\<open>updateProgress\<close>: an \<^verbatim>\<open>error\<close> result and an exception are both logged and
  swallowed. The parameter \<open>status'\<close> defaults to \<^verbatim>\<open>'started'\<close> in the source.
\<close>

definition updateProgress ::
  "supabase \<Rightarrow> string \<Rightarrow> nat \<Rightarrow> string \<Rightarrow> string \<Rightarrow> string \<Rightarrow> db \<Rightarrow> db" where
  "updateProgress sb jobId stepNumber stepName stepMessage status' w =
     (let progressPercentage' = progressPercentage stepNumber;
          w1 = w\<lparr>updates := Suc (updates w)\<rparr>
      in case updateJob sb (updates w) of
           DbOk \<Rightarrow>
             update_row jobId
               (\<lambda>r. r\<lparr>current_step := stepName, step_message := stepMessage,
                      progress_percentage := progressPercentage', status := status'\<rparr>) w1
         | DbError \<Rightarrow> w1
         | DbThrows \<Rightarrow> w1)"

section \<open>The workflow: \<^verbatim>\<open>signal-analysis.ts\<close>\<close>

text \<open>
  The function \<^verbatim>\<open>signalAnalysisWorkflow\<close> runs its steps in sequence, each through
  \<^verbatim>\<open>step.run\<close>. A step is modelled as one call of its function, from the state the
  previous step left; the retries and the memoisation of the workflow engine are not
  part of the source and are not modelled. The data capability and the scoring
  capability, which the source imports, are parameters of the steps that call them.

  The decimal digits of a number and \<^verbatim>\<open>join(', ')\<close>, for the template strings of the
  step messages:
\<close>

fun string_of_nat :: "nat \<Rightarrow> string" where
  "string_of_nat n =
     (if n < 10 then [char_of (48 + n)]
      else string_of_nat (n div 10) @ [char_of (48 + n mod 10)])"

declare string_of_nat.simps [simp del]

fun join_comma :: "string list \<Rightarrow> string" where
  "join_comma [] = []"
| "join_comma [x] = x"
| "join_comma (x # y # ys) = x @ '', '' @ join_comma (y # ys)"

subsection \<open>Step 1: \<^verbatim>\<open>initialize-job\<close>\<close>

text \<open>
  The insert of the job row, with progress 14. An \<^verbatim>\<open>error\<close> result is thrown, and an
  exception of the client is not caught: both end the run.
\<close>

definition initialize_job :: "supabase \<Rightarrow> string \<Rightarrow> db \<Rightarrow> (error + string) \<times> db" where
  "initialize_job sb jobId w =
     (let jobData = \<lparr>job_id = jobId, status = ''started'',
                     current_step = ''Initializing Analysis'',
                     step_message = ''Setting up trading analysis pipeline...'',
                     progress_percentage = 14,
                     signals_generated = None, alerts_generated = None\<rparr>
      in case insertJob sb of
           DbOk \<Rightarrow> (Inr jobId, w\<lparr>analysis_jobs := (analysis_jobs w)(jobId \<mapsto> jobData),
                                 history := history w @ [jobData]\<rparr>)
         | DbError \<Rightarrow> (Inl PostgrestError, w)
         | DbThrows \<Rightarrow> (Inl PostgrestError, w))"

subsection \<open>Steps 2 and 3: \<^verbatim>\<open>select-and-fetch-data\<close>\<close>

text \<open>An element of \<^verbatim>\<open>results\<close>: \<^verbatim>\<open>{ symbol, metrics, success: true }\<close>.\<close>

record selected =
  sel_symbol :: string
  sel_metrics :: SocialMetrics
  success :: bool

text \<open>The completeness test of the loop: not all three counters are zero.\<close>

definition has_real_data :: "SocialMetrics \<Rightarrow> bool" where
  "has_real_data metrics \<longleftrightarrow> mentions metrics > 0 \<or> interactions metrics > 0 \<or> creators metrics > 0"

text \<open>
  The \<^verbatim>\<open>for\<close> loop over the candidates. \<open>fetch\<close> is the data capability
  (\<^verbatim>\<open>getSocialMetrics\<close> in the source); when it throws, the \<^verbatim>\<open>catch\<close> skips the coin.
  The loop leaves at its head once three results are collected.
\<close>

fun select_loop ::
  "supabase \<Rightarrow> (TopCoin \<Rightarrow> error + SocialMetrics) \<Rightarrow> string \<Rightarrow> TopCoin list \<Rightarrow>
   selected list \<Rightarrow> db \<Rightarrow> selected list \<times> db" where
  "select_loop sb fetch jobId [] results w = (results, w)"
| "select_loop sb fetch jobId (coin # rest) results w =
     (if length results \<ge> 3 then (results, w)
      else
        let w1 = updateProgress sb jobId 2 ''Testing Coin Data''
                   (''Checking '' @ coin_symbol coin @ '' ('' @
                    string_of_nat (length results + 1) @ ''/3 found)...'') ''started'' w
        in case fetch coin of
             Inl e \<Rightarrow>
               select_loop sb fetch jobId rest results
                 (w1\<lparr>console := console w1 @ [FailedDataCheck (coin_symbol coin)]\<rparr>)
           | Inr metrics \<Rightarrow>
               if mentions metrics > 0 \<or> interactions metrics > 0 \<or> creators metrics > 0 then
                 select_loop sb fetch jobId rest
                   (results @ [\<lparr>sel_symbol = coin_symbol coin, sel_metrics = metrics,
                                 success = True\<rparr>])
                   (w1\<lparr>console := console w1 @ [HasCompleteData (coin_symbol coin)]\<rparr>)
               else
                 select_loop sb fetch jobId rest results
                   (w1\<lparr>console := console w1 @ [NoSocialData (coin_symbol coin)]\<rparr>))"

text \<open>
  The step: \<^verbatim>\<open>event.data.topCoins || []\<close> is the candidate list; an empty list and
  an empty result are thrown.
\<close>

definition select_and_fetch_data ::
  "supabase \<Rightarrow> (TopCoin \<Rightarrow> error + SocialMetrics) \<Rightarrow> string \<Rightarrow> TopCoin list option \<Rightarrow>
   db \<Rightarrow> (error + selected list) \<times> db" where
  "select_and_fetch_data sb fetch jobId topCoins w =
     (let w1 = updateProgress sb jobId 2 ''Selecting Best Coins''
                 ''Testing top 10 candidates for complete social data...'' ''started'' w;
          candidateCoins = (case topCoins of None \<Rightarrow> [] | Some cs \<Rightarrow> cs)
      in if length candidateCoins = 0 then (Inl (Error ''No candidate coins provided''), w1)
         else
           (case select_loop sb fetch jobId candidateCoins [] w1 of
              (results, w2) \<Rightarrow>
                if length results = 0 then
                  (Inl (Error ''No coins with complete social data found in top 10''), w2)
                else
                  (Inr results,
                   updateProgress sb jobId 3 ''Selection Complete''
                     (''Selected '' @ string_of_nat (length results) @
                      '' coins with complete metrics: '' @ join_comma (map sel_symbol results))
                     ''started'' w2)))"

subsection \<open>Step 4: \<^verbatim>\<open>generate-ai-signals\<close>\<close>

text \<open>
  \<open>scoreOne\<close> is the scoring capability (\<^verbatim>\<open>generateTradingSignal\<close> in the source).
  The filter \<^verbatim>\<open>result.success && result.metrics\<close> keeps the items marked
  \<open>success\<close> (the metrics of an item is an object, which is truthy). Each call has its
  own \<^verbatim>\<open>.catch\<close>, which turns a rejection into \<^verbatim>\<open>null\<close>; \<^verbatim>\<open>Promise.all\<close> keeps the
  order of the calls, and the \<^verbatim>\<open>null\<close>s are filtered out. The calls share no state:
  running them at the same time gives what running them in order gives.
\<close>

definition catch_null :: "error + TradingSignal \<Rightarrow> TradingSignal option" where
  "catch_null p = (case p of Inl e \<Rightarrow> None | Inr s \<Rightarrow> Some s)"

definition generate_ai_signals ::
  "supabase \<Rightarrow> (string \<Rightarrow> SocialMetrics \<Rightarrow> error + TradingSignal) \<Rightarrow> string \<Rightarrow>
   selected list \<Rightarrow> db \<Rightarrow> TradingSignal list \<times> db" where
  "generate_ai_signals sb scoreOne jobId socialMetrics w =
     (let w1 = updateProgress sb jobId 4 ''AI Signal Generation''
                 ''Google Gemini analyzing all coins in parallel...'' ''started'' w;
          successfulMetrics = filter (\<lambda>result. success result) socialMetrics;
          signalPromises =
            map (\<lambda>result. catch_null (scoreOne (sel_symbol result) (sel_metrics result)))
              successfulMetrics;
          signals = map the (filter (\<lambda>s. s \<noteq> None) signalPromises)
      in (signals,
          updateProgress sb jobId 4 ''AI Analysis Complete''
            (''Generated '' @ string_of_nat (length signals) @
             '' trading signals with confidence scores'') ''started'' w1))"

subsection \<open>Step 5: \<^verbatim>\<open>save-to-database\<close>\<close>

record save_result =
  sr_symbol :: string
  sr_success :: bool

text \<open>
  The \<^verbatim>\<open>for\<close> loop over the indices \<open>i\<close>; \<open>count\<close> is \<^verbatim>\<open>tradingSignals.length\<close>
  and the list argument holds the signals from index \<open>i\<close> on. An \<^verbatim>\<open>error\<close> result
  is thrown inside the \<^verbatim>\<open>try\<close>, so it ends in the \<^verbatim>\<open>catch\<close> as an exception of
  the client does: the flag of the signal is \<open>False\<close> and the loop goes on.
\<close>

fun save_loop ::
  "supabase \<Rightarrow> string \<Rightarrow> nat \<Rightarrow> nat \<Rightarrow> TradingSignal list \<Rightarrow> save_result list \<Rightarrow> db \<Rightarrow>
   save_result list \<times> db" where
  "save_loop sb jobId count i [] saveResults w = (saveResults, w)"
| "save_loop sb jobId count i (sg # rest) saveResults w =
     (case insertSignal sb i sg of
        DbOk \<Rightarrow>
          save_loop sb jobId count (i + 1) rest
            (saveResults @ [\<lparr>sr_symbol = sig_symbol sg, sr_success = True\<rparr>])
            (updateProgress sb jobId 5 ''Saving Results''
               (''Saved '' @ string_of_nat (i + 1) @ ''/'' @ string_of_nat count @
                '' signals to database...'') ''started''
               (w\<lparr>trading_signals := trading_signals w @ [sg]\<rparr>))
      | DbError \<Rightarrow>
          save_loop sb jobId count (i + 1) rest
            (saveResults @ [\<lparr>sr_symbol = sig_symbol sg, sr_success = False\<rparr>]) w
      | DbThrows \<Rightarrow>
          save_loop sb jobId count (i + 1) rest
            (saveResults @ [\<lparr>sr_symbol = sig_symbol sg, sr_success = False\<rparr>]) w)"

definition save_to_database ::
  "supabase \<Rightarrow> string \<Rightarrow> TradingSignal list \<Rightarrow> db \<Rightarrow> save_result list \<times> db" where
  "save_to_database sb jobId tradingSignals w =
     (let w1 = updateProgress sb jobId 5 ''Saving Results''
                 (''Storing '' @ string_of_nat (length tradingSignals) @
                  '' trading signals in database...'') ''started'' w
      in save_loop sb jobId (length tradingSignals) 0 tradingSignals [] w1)"

subsection \<open>Step 6: \<^verbatim>\<open>generate-summary\<close>\<close>

record top_signal =
  ts_symbol :: string
  ts_signal :: decision
  ts_confidence :: int
  ts_altRank :: int

record distribution =
  dist_BUY :: nat
  dist_SELL :: nat
  dist_HOLD :: nat

record summary =
  totalAnalyzed :: nat
  highConfidence :: nat
  distribution :: distribution
  topSignals :: "top_signal list"

text \<open>
  \<^verbatim>\<open>Array.prototype.sort\<close> with a comparator: a stable sort (ECMAScript 2019), in
  which an element stays before a later one unless the comparator is positive on the
  two. It sorts the array in place and returns it.
\<close>

fun insert_by :: "('a \<Rightarrow> 'a \<Rightarrow> int) \<Rightarrow> 'a \<Rightarrow> 'a list \<Rightarrow> 'a list" where
  "insert_by cmp x [] = [x]"
| "insert_by cmp x (y # ys) =
     (if cmp x y \<le> 0 then x # y # ys else y # insert_by cmp x ys)"

definition js_sort :: "('a \<Rightarrow> 'a \<Rightarrow> int) \<Rightarrow> 'a list \<Rightarrow> 'a list" where
  "js_sort cmp xs = foldr (insert_by cmp) xs []"

definition by_confidence_desc :: "TradingSignal \<Rightarrow> TradingSignal \<Rightarrow> int" where
  "by_confidence_desc a b = confidence b - confidence a"

text \<open>
  The computation of the step: the summary, and the array \<^verbatim>\<open>tradingSignals\<close> as the
  call leaves it. The counts are taken before \<^verbatim>\<open>sort\<close> runs; \<^verbatim>\<open>sort\<close> reorders
  \<^verbatim>\<open>tradingSignals\<close> itself, \<^verbatim>\<open>slice\<close> and \<^verbatim>\<open>map\<close> build new arrays.
\<close>

definition summarize :: "TradingSignal list \<Rightarrow> summary \<times> TradingSignal list" where
  "summarize tradingSignals =
     (let highConfidenceSignals = filter (\<lambda>s. confidence s \<ge> 70) tradingSignals;
          buySignals = filter (\<lambda>s. signal s = BUY) tradingSignals;
          sellSignals = filter (\<lambda>s. signal s = SELL) tradingSignals;
          holdCount = length (filter (\<lambda>s. signal s = HOLD) tradingSignals);
          tradingSignals' = js_sort by_confidence_desc tradingSignals
      in (\<lparr>totalAnalyzed = length tradingSignals,
           highConfidence = length highConfidenceSignals,
           distribution = \<lparr>dist_BUY = length buySignals, dist_SELL = length sellSignals,
                            dist_HOLD = holdCount\<rparr>,
           topSignals =
             map (\<lambda>s. \<lparr>ts_symbol = sig_symbol s, ts_signal = signal s,
                        ts_confidence = confidence s, ts_altRank = altRank (sig_metrics s)\<rparr>)
               (take 3 tradingSignals')\<rparr>,
          tradingSignals'))"

definition generate_summary ::
  "supabase \<Rightarrow> string \<Rightarrow> TradingSignal list \<Rightarrow> db \<Rightarrow> summary \<times> TradingSignal list \<times> db" where
  "generate_summary sb jobId tradingSignals w =
     (let w1 = updateProgress sb jobId 6 ''Generating Summary''
                 ''Creating analysis summary and preparing notifications...'' ''started'' w
      in case summarize tradingSignals of
           (summary', tradingSignals') \<Rightarrow> (summary', tradingSignals', w1))"

subsection \<open>Step 6.5: \<^verbatim>\<open>send-notifications\<close>\<close>

text \<open>
  The alerts go to Telegram through \<^verbatim>\<open>Promise.allSettled\<close>; their outcome is only
  logged, so the step acts on the state through its progress update alone.
\<close>

definition send_notifications :: "supabase \<Rightarrow> string \<Rightarrow> TradingSignal list \<Rightarrow> db \<Rightarrow> db" where
  "send_notifications sb jobId tradingSignals w =
     (let highConfidenceSignals = filter (\<lambda>s. confidence s \<ge> 70) tradingSignals
      in if length highConfidenceSignals > 0 then
           updateProgress sb jobId 6 ''Sending Notifications''
             (''Sending '' @ string_of_nat (length highConfidenceSignals) @
              '' high-confidence alerts to Telegram...'') ''started'' w
         else w)"

subsection \<open>Step 7: \<^verbatim>\<open>complete-job\<close>\<close>

text \<open>
  The progress update with status \<^verbatim>\<open>completed\<close>, then the update of the final
  statistics, whose failure is logged and swallowed. \<^verbatim>\<open>signals_generated\<close> is
  \<^verbatim>\<open>tradingSignals.length\<close>.
\<close>

definition complete_job ::
  "supabase \<Rightarrow> string \<Rightarrow> TradingSignal list \<Rightarrow> summary \<Rightarrow> db \<Rightarrow> db" where
  "complete_job sb jobId tradingSignals summary' w =
     (let w1 = updateProgress sb jobId 7 ''Analysis Complete''
                 (''Generated '' @ string_of_nat (length tradingSignals) @
                  '' trading signals.'') ''completed'' w;
          w2 = w1\<lparr>updates := Suc (updates w1)\<rparr>
      in case updateJob sb (updates w1) of
           DbOk \<Rightarrow>
             update_row jobId
               (\<lambda>r. r\<lparr>signals_generated := Some (length tradingSignals),
                      alerts_generated := Some (highConfidence summary')\<rparr>) w2
         | DbError \<Rightarrow> w2
         | DbThrows \<Rightarrow> w2)"

subsection \<open>The workflow function\<close>

text \<open>
  The data of the event \<^verbatim>\<open>trading.analyze\<close>: a field that is \<^verbatim>\<open>undefined\<close> is
  \<open>None\<close>. A missing or empty job id is thrown before any step runs.
\<close>

record event_data =
  jobId :: "string option"
  topCoins :: "TopCoin list option"

text \<open>
  The values of the steps of one run, as the workflow engine records them:
  \<open>run_tradingSignals\<close> is the value of \<^verbatim>\<open>generate-ai-signals\<close>, and
  \<open>run_tradingSignals_final\<close> is the array \<^verbatim>\<open>tradingSignals\<close> as the later steps
  read it.
\<close>

record run =
  run_jobId :: string
  run_socialMetrics :: "selected list"
  run_tradingSignals :: "TradingSignal list"
  run_savedSignals :: "save_result list"
  run_summary :: summary
  run_tradingSignals_final :: "TradingSignal list"

definition run_steps ::
  "supabase \<Rightarrow> (TopCoin \<Rightarrow> error + SocialMetrics) \<Rightarrow>
   (string \<Rightarrow> SocialMetrics \<Rightarrow> error + TradingSignal) \<Rightarrow> event_data \<Rightarrow> db \<Rightarrow>
   (error + run) \<times> db" where
  "run_steps sb fetch scoreOne event w =
     (case jobId event of
        None \<Rightarrow> (Inl (Error ''No job ID provided in event data''), w)
      | Some jobId' \<Rightarrow>
          if jobId' = [] then (Inl (Error ''No job ID provided in event data''), w)
          else
            (case initialize_job sb jobId' w of
               (Inl e, w1) \<Rightarrow> (Inl e, w1)
             | (Inr j, w1) \<Rightarrow>
                 (case select_and_fetch_data sb fetch jobId' (topCoins event) w1 of
                    (Inl e, w2) \<Rightarrow> (Inl e, w2)
                  | (Inr socialMetrics, w2) \<Rightarrow>
                      (case generate_ai_signals sb scoreOne jobId' socialMetrics w2 of
                         (tradingSignals, w3) \<Rightarrow>
                           (case save_to_database sb jobId' tradingSignals w3 of
                              (savedSignals, w4) \<Rightarrow>
                                (case generate_summary sb jobId' tradingSignals w4 of
                                   (summary', tradingSignals', w5) \<Rightarrow>
                                     (let w6 = send_notifications sb jobId' tradingSignals' w5;
                                          w7 = complete_job sb jobId' tradingSignals' summary' w6
                                      in (Inr \<lparr>run_jobId = jobId',
                                               run_socialMetrics = socialMetrics,
                                               run_tradingSignals = tradingSignals,
                                               run_savedSignals = savedSignals,
                                               run_summary = summary',
                                               run_tradingSignals_final = tradingSignals'\<rparr>,
                                          w7))))))))"

text \<open>The function and the value it returns.\<close>

record workflow_result =
  wf_success :: bool
  wf_jobId :: string
  symbolsAnalyzed :: nat
  wf_summary :: summary

definition signalAnalysisWorkflow ::
  "supabase \<Rightarrow> (TopCoin \<Rightarrow> error + SocialMetrics) \<Rightarrow>
   (string \<Rightarrow> SocialMetrics \<Rightarrow> error + TradingSignal) \<Rightarrow> event_data \<Rightarrow> db \<Rightarrow>
   (error + workflow_result) \<times> db" where
  "signalAnalysisWorkflow sb fetch scoreOne event w =
     (case run_steps sb fetch scoreOne event w of
        (Inl e, w') \<Rightarrow> (Inl e, w')
      | (Inr r, w') \<Rightarrow>
          (Inr \<lparr>wf_success = True, wf_jobId = run_jobId r,
                symbolsAnalyzed = length (run_tradingSignals_final r),
                wf_summary = run_summary r\<rparr>, w'))"

section \<open>Notions used in the statements\<close>

subsection \<open>The selection\<close>

text \<open>
  What the loop makes of one candidate: the item it appends to \<^verbatim>\<open>results\<close>, if any,
  and the console line it prints.
\<close>

definition complete_item :: "(TopCoin \<Rightarrow> error + SocialMetrics) \<Rightarrow> TopCoin \<Rightarrow> selected option" where
  "complete_item fetch coin =
     (case fetch coin of
        Inl e \<Rightarrow> None
      | Inr metrics \<Rightarrow>
          if has_real_data metrics
          then Some \<lparr>sel_symbol = coin_symbol coin, sel_metrics = metrics, success = True\<rparr>
          else None)"

definition verdict :: "(TopCoin \<Rightarrow> error + SocialMetrics) \<Rightarrow> TopCoin \<Rightarrow> select_log" where
  "verdict fetch coin =
     (case fetch coin of
        Inl e \<Rightarrow> FailedDataCheck (coin_symbol coin)
      | Inr metrics \<Rightarrow>
          if has_real_data metrics then HasCompleteData (coin_symbol coin)
          else NoSocialData (coin_symbol coin))"

text \<open>
  Metrics whose three counters are zero, and the record \<^verbatim>\<open>getSocialMetrics\<close> builds
  for a coin from zeros.
\<close>

definition all_zero :: "SocialMetrics \<Rightarrow> bool" where
  "all_zero metrics \<longleftrightarrow> mentions metrics = 0 \<and> interactions metrics = 0 \<and> creators metrics = 0"

definition zero_metrics :: "TopCoin \<Rightarrow> SocialMetrics" where
  "zero_metrics coin =
     \<lparr>m_symbol = coin_symbol coin, mentions = 0, interactions = 0, creators = 0,
      altRank = coin_altRank coin, galaxyScore = coin_galaxyScore coin\<rparr>"

text \<open>
  The topic request for a symbol fails: \<open>makeRequest\<close> throws, or its response has no
  \<^verbatim>\<open>data\<close> object.
\<close>

definition topic_fetch_fails :: "(string \<Rightarrow> error + TopicResponse) \<Rightarrow> string \<Rightarrow> bool" where
  "topic_fetch_fails makeRequest symbol =
     (case makeRequest (topic_endpoint symbol) of
        Inl e \<Rightarrow> True
      | Inr response \<Rightarrow> response_data response = None)"

text \<open>The progress update at the head of the loop body.\<close>

definition testing_coin :: "supabase \<Rightarrow> string \<Rightarrow> TopCoin \<Rightarrow> nat \<Rightarrow> db \<Rightarrow> db" where
  "testing_coin sb j coin found w =
     updateProgress sb j 2 ''Testing Coin Data''
       (''Checking '' @ coin_symbol coin @ '' ('' @ string_of_nat (found + 1) @ ''/3 found)...'')
       ''started'' w"

subsection \<open>Scoring and saving\<close>

text \<open>
  The four indicators of the fallback rule, in exact arithmetic. The first is the
  engagement: the quotient of the interactions by \<^verbatim>\<open>max(mentions, 1)\<close> is, once rounded
  to binary64, above 100, which is the case exactly when the quotient is above
  \<open>100 + 1 / 2 ^ 47\<close>, the midpoint of 100 and the next binary64 value. The others are
  a rank below 100, a galaxy score above 70 and more than 1000 creators.
\<close>

definition high_engagement :: "SocialMetrics \<Rightarrow> bool" where
  "high_engagement metrics \<longleftrightarrow>
     100 + 1 / 2 ^ 47 < rat_of_int (interactions metrics) / rat_of_int (max (mentions metrics) 1)"

definition positive_indicators :: "SocialMetrics \<Rightarrow> nat" where
  "positive_indicators metrics =
     (if high_engagement metrics then 1 else 0) + (if altRank metrics < 100 then 1 else 0) +
     (if 70 < galaxyScore metrics then 1 else 0) + (if 1000 < creators metrics then 1 else 0)"

text \<open>
  What one selected item contributes to the signals, and whether its scoring is
  rejected.
\<close>

definition score_item ::
  "(string \<Rightarrow> SocialMetrics \<Rightarrow> error + TradingSignal) \<Rightarrow> selected \<Rightarrow> TradingSignal list" where
  "score_item scoreOne result =
     (case scoreOne (sel_symbol result) (sel_metrics result) of Inl e \<Rightarrow> [] | Inr s \<Rightarrow> [s])"

definition score_fails ::
  "(string \<Rightarrow> SocialMetrics \<Rightarrow> error + TradingSignal) \<Rightarrow> selected \<Rightarrow> bool" where
  "score_fails scoreOne result = isl (scoreOne (sel_symbol result) (sel_metrics result))"

text \<open>The flags \<^verbatim>\<open>save-to-database\<close> returns, from loop index \<open>i\<close> on.\<close>

fun save_flags :: "supabase \<Rightarrow> nat \<Rightarrow> TradingSignal list \<Rightarrow> save_result list" where
  "save_flags sb i [] = []"
| "save_flags sb i (sg # rest) =
     \<lparr>sr_symbol = sig_symbol sg, sr_success = (insertSignal sb i sg = DbOk)\<rparr> #
     save_flags sb (i + 1) rest"

text \<open>The entry of \<^verbatim>\<open>topSignals\<close> made from a signal.\<close>

definition top_of :: "TradingSignal \<Rightarrow> top_signal" where
  "top_of s = \<lparr>ts_symbol = sig_symbol s, ts_signal = signal s,
              ts_confidence = confidence s, ts_altRank = altRank (sig_metrics s)\<rparr>"

subsection \<open>The rows written by a run\<close>

text \<open>The rows written to \<^verbatim>\<open>analysis_jobs\<close> between the states \<open>w0\<close> and \<open>w\<close>.\<close>

definition written :: "db \<Rightarrow> db \<Rightarrow> job_row list" where
  "written w0 w = drop (length (history w0)) (history w)"

text \<open>The progress percentage the row of a job shows, if the row exists.\<close>

definition row_progress :: "string \<Rightarrow> db \<Rightarrow> int option" where
  "row_progress j w = map_option progress_percentage (analysis_jobs w j)"

text \<open>The progress percentages of the steps 1 to 7.\<close>

definition step_values :: "int set" where
  "step_values = {14, 29, 43, 57, 71, 86, 100}"

text \<open>
  The invariant of a run between its steps, \<open>w0\<close> its initial state: the run has
  written rows, all of status \<^verbatim>\<open>started\<close>, with non-decreasing progress of at most
  \<open>b\<close>, and the last row written is the row of the job.
\<close>

definition run_inv :: "string \<Rightarrow> db \<Rightarrow> int \<Rightarrow> db \<Rightarrow> bool" where
  "run_inv j w0 b w \<longleftrightarrow>
     (\<exists>new. history w = history w0 @ new \<and> new \<noteq> [] \<and>
        sorted (map progress_percentage new) \<and>
        (\<forall>r\<in>set new. progress_percentage r \<le> b \<and> status r = ''started'' \<and>
           progress_percentage r \<in> step_values) \<and>
        analysis_jobs w j = Some (last new))"

text \<open>
  What holds when the run has ended, normally or by an exception: the rows written
  are \<^verbatim>\<open>started\<close> rows followed by at most two \<^verbatim>\<open>completed\<close> rows.
\<close>

definition run_done :: "db \<Rightarrow> db \<Rightarrow> bool" where
  "run_done w0 w \<longleftrightarrow>
     (\<exists>pre post. history w = history w0 @ pre @ post \<and>
        sorted (map progress_percentage (pre @ post)) \<and>
        (\<forall>r\<in>set pre. status r = ''started'') \<and>
        (\<forall>r\<in>set post. status r = ''completed'') \<and>
        (\<forall>r\<in>set (pre @ post). progress_percentage r \<in> step_values) \<and>
        length post \<le> 2)"

text \<open>The two updates of \<^verbatim>\<open>complete-job\<close>, as functions on the row.\<close>

definition completed_row :: "nat \<Rightarrow> job_row \<Rightarrow> job_row" where
  "completed_row n r =
     r\<lparr>current_step := ''Analysis Complete'',
       step_message := ''Generated '' @ string_of_nat n @ '' trading signals.'',
       progress_percentage := 100, status := ''completed''\<rparr>"

definition final_statistics :: "nat \<Rightarrow> nat \<Rightarrow> job_row \<Rightarrow> job_row" where
  "final_statistics n a r = r\<lparr>signals_generated := Some n, alerts_generated := Some a\<rparr>"

section \<open>Concrete inputs\<close>

text \<open>
  Inputs for the closed theorems. Coins differ in their symbol only. The data provider
  \<open>demo_request\<close> answers with data, except for the symbol \<open>DOWN\<close> (error status) and
  \<open>NONE\<close> (a response without \<^verbatim>\<open>data\<close>); \<open>outage_request\<close> fails for every symbol;
  \<open>flaky_fetch\<close> is a data capability that throws for \<open>DOWN\<close>.
\<close>

definition demo_coin :: "string \<Rightarrow> TopCoin" where
  "demo_coin s = \<lparr>coin_symbol = s, coin_name = s, coin_altRank = 5, coin_galaxyScore = 65,
                  coin_price = 1, coin_marketCap = 1000, coin_percentChange24h = 0\<rparr>"

definition demo_request :: "string \<Rightarrow> error + TopicResponse" where
  "demo_request endpoint =
     (if endpoint = topic_endpoint ''DOWN'' then Inl (Error ''LunarCrush API is temporarily unavailable'')
      else if endpoint = topic_endpoint ''NONE'' then Inr \<lparr>response_data = None\<rparr>
      else Inr \<lparr>response_data = Some \<lparr>num_posts = Some 10, interactions_24h = Some 5000,
                                        num_contributors = Some 2000\<rparr>\<rparr>)"

definition outage_request :: "string \<Rightarrow> error + TopicResponse" where
  "outage_request endpoint =
     (if endpoint = topic_endpoint ''BTC'' then Inl (Error ''LunarCrush API is temporarily unavailable'')
      else if endpoint = topic_endpoint ''ETH'' then Inr \<lparr>response_data = None\<rparr>
      else Inl (Error ''The operation was aborted due to timeout''))"

definition flaky_fetch :: "TopCoin \<Rightarrow> error + SocialMetrics" where
  "flaky_fetch coin =
     (if coin_symbol coin = ''DOWN'' then Inl (Error ''Rate limit exceeded'')
      else getSocialMetrics demo_request coin)"

definition demo_candidates :: "TopCoin list" where
  "demo_candidates = [demo_coin ''BTC'', demo_coin ''DOWN'', demo_coin ''NONE'',
                      demo_coin ''ETH'', demo_coin ''SOL'', demo_coin ''XRP'']"


definition demo_metrics :: SocialMetrics where
  "demo_metrics = \<lparr>m_symbol = ''ETH'', mentions = 10, interactions = 5000, creators = 2000,
                   altRank = 5, galaxyScore = 65\<rparr>"

definition demo_selected :: "string \<Rightarrow> selected" where
  "demo_selected s =
     \<lparr>sel_symbol = s,
      sel_metrics = \<lparr>m_symbol = s, mentions = 10, interactions = 5000, creators = 2000,
                     altRank = 5, galaxyScore = 65\<rparr>,
      success = True\<rparr>"

text \<open>
  The model \<open>demo_gemini\<close> throws for the symbol \<open>ETH\<close> and answers \<open>BUY\<close> with
  confidence 85 otherwise; \<open>failing_score\<close> is a scoring capability that rejects \<open>ETH\<close>.
  The model \<open>unparsable_gemini\<close> answers with a text in which none of the three patterns
  has a match, such as the empty text or \<^verbatim>\<open>I cannot analyze this coin.\<close>
\<close>

definition unparsable_gemini :: gemini where
  "unparsable_gemini =
     \<lparr>apiKey = Some ''key'',
      generateContent = (\<lambda>symbol metrics.
        Inr (Some \<lparr>signalMatch = None, confidenceMatch = None, reasoningMatch = None\<rparr>))\<rparr>"

definition demo_gemini :: gemini where
  "demo_gemini = \<lparr>apiKey = Some ''key'',
                  generateContent = (\<lambda>symbol metrics.
                    if symbol = ''ETH'' then Inl (Error ''deadline exceeded'')
                    else Inr (Some \<lparr>signalMatch = Some BUY, confidenceMatch = Some 85,
                                    reasoningMatch = Some ''Strong engagement''\<rparr>))\<rparr>"

definition failing_score :: "string \<Rightarrow> SocialMetrics \<Rightarrow> error + TradingSignal" where
  "failing_score symbol metrics =
     (if symbol = ''ETH'' then Inl (Error ''request timed out'')
      else generateTradingSignal demo_gemini symbol metrics)"

definition demo_signal :: "string \<Rightarrow> int \<Rightarrow> TradingSignal" where
  "demo_signal s c =
     \<lparr>sig_symbol = s, signal = HOLD, confidence = c,
      sig_reasoning = ReasonText ''Analysis based on social metrics'',
      sig_metrics = \<lparr>m_symbol = s, mentions = 10, interactions = 5000, creators = 2000,
                     altRank = 5, galaxyScore = 65\<rparr>\<rparr>"

text \<open>
  Metrics with counters so large that the quotient of the interactions by the mentions,
  which is above 100, is rounded to 100 by the division.
\<close>

definition rounded_metrics :: SocialMetrics where
  "rounded_metrics = \<lparr>m_symbol = ''ETH'', mentions = 600000000000001,
                      interactions = 60000000000000104, creators = 2000,
                      altRank = 5, galaxyScore = 65\<rparr>"

text \<open>
  Stores: one that accepts every call, and one that rejects the insert of the second
  signal (loop index 1).
\<close>

definition all_ok :: supabase where
  "all_ok = \<lparr>insertJob = DbOk, updateJob = (\<lambda>n. DbOk), insertSignal = (\<lambda>i s. DbOk)\<rparr>"

definition second_write_fails :: supabase where
  "second_write_fails = \<lparr>insertJob = DbOk, updateJob = (\<lambda>n. DbOk),
                         insertSignal = (\<lambda>i s. if i = 1 then DbError else DbOk)\<rparr>"

text \<open>
  Events and runs: five candidates, of which the second has no data, so that the
  first, third and fourth are selected; three candidates during an outage of the
  data provider; the job row as \<^verbatim>\<open>initialize-job\<close> creates it; and the run of the
  five candidates in the store that rejects the second signal.
\<close>

definition demo_event :: event_data where
  "demo_event = \<lparr>jobId = Some ''job_1'',
                 topCoins = Some [demo_coin ''BTC'', demo_coin ''NONE'', demo_coin ''ETH'',
                                  demo_coin ''SOL'', demo_coin ''XRP'']\<rparr>"

definition outage_event :: event_data where
  "outage_event = \<lparr>jobId = Some ''job_2'',
                   topCoins = Some [demo_coin ''BTC'', demo_coin ''ETH'', demo_coin ''SOL'']\<rparr>"

definition demo_job_row :: job_row where
  "demo_job_row = \<lparr>job_id = ''job_1'', status = ''started'',
                   current_step = ''Initializing Analysis'',
                   step_message = ''Setting up trading analysis pipeline...'',
                   progress_percentage = 14,
                   signals_generated = None, alerts_generated = None\<rparr>"

definition demo_initialized :: db where
  "demo_initialized = snd (initialize_job all_ok ''job_1'' fresh_db)"

definition demo_partial_run :: "(error + run) \<times> db" where
  "demo_partial_run =
     run_steps second_write_fails (getSocialMetrics demo_request)
       (generateTradingSignal demo_gemini) demo_event fresh_db"

section \<open>Lemmas\<close>

subsection \<open>Progress values\<close>

lemma progressPercentage_1: "progressPercentage 1 = 14" "progressPercentage (Suc 0) = 14"
  by code_simp+

lemma progress_values:
  "progressPercentage 2 = 29" "progressPercentage 3 = 43" "progressPercentage 4 = 57"
  "progressPercentage 5 = 71" "progressPercentage 6 = 86" "progressPercentage 7 = 100"
  by code_simp+

lemma round_values:
  "round (100 * rat_of_nat 1 / 7) = (14 :: int)" "round (100 * rat_of_nat 2 / 7) = (29 :: int)"
  "round (100 * rat_of_nat 3 / 7) = (43 :: int)" "round (100 * rat_of_nat 4 / 7) = (57 :: int)"
  "round (100 * rat_of_nat 5 / 7) = (71 :: int)" "round (100 * rat_of_nat 6 / 7) = (86 :: int)"
  "round (100 * rat_of_nat 7 / 7) = (100 :: int)"
  by code_simp+

lemma progressPercentage_round:
  assumes "k \<in> {1..7}"
  shows "progressPercentage k = round (100 * rat_of_nat k / 7)"
proof -
  from assms consider "k = 1" | "k = 2" | "k = 3" | "k = 4" | "k = 5" | "k = 6" | "k = 7"
    by force
  then show ?thesis
    by cases (simp_all only: progressPercentage_1 progress_values round_values)
qed

lemma step_values_progress:
  "14 \<in> step_values" "29 \<in> step_values" "43 \<in> step_values" "57 \<in> step_values"
  "71 \<in> step_values" "86 \<in> step_values" "100 \<in> step_values"
  by (simp_all add: step_values_def)

lemma step_values_are_steps:
  assumes "p \<in> step_values"
  shows "\<exists>k\<in>{1..7}. p = progressPercentage k"
proof -
  from assms consider "p = 14" | "p = 29" | "p = 43" | "p = 57" | "p = 71" | "p = 86" | "p = 100"
    by (auto simp: step_values_def)
  then show ?thesis
  proof cases
    case 1 then show ?thesis by (intro bexI[of _ 1]) (simp_all add: progressPercentage_1)
  next
    case 2 then show ?thesis by (intro bexI[of _ 2]) (simp_all add: progress_values)
  next
    case 3 then show ?thesis by (intro bexI[of _ 3]) (simp_all add: progress_values)
  next
    case 4 then show ?thesis by (intro bexI[of _ 4]) (simp_all add: progress_values)
  next
    case 5 then show ?thesis by (intro bexI[of _ 5]) (simp_all add: progress_values)
  next
    case 6 then show ?thesis by (intro bexI[of _ 6]) (simp_all add: progress_values)
  next
    case 7 then show ?thesis by (intro bexI[of _ 7]) (simp_all add: progress_values)
  qed
qed

subsection \<open>Writes to the job row\<close>

lemma update_row_Some:
  "analysis_jobs w j = Some r \<Longrightarrow>
   update_row j f w = w\<lparr>analysis_jobs := (analysis_jobs w)(j \<mapsto> f r),
                         history := history w @ [f r]\<rparr>"
  by (simp add: update_row_def)

lemma updateProgress_ok:
  "updateJob sb (updates w) = DbOk \<Longrightarrow>
   updateProgress sb j k n m s w =
     update_row j (\<lambda>r. r\<lparr>current_step := n, step_message := m,
                      progress_percentage := progressPercentage k, status := s\<rparr>)
       (w\<lparr>updates := Suc (updates w)\<rparr>)"
  by (simp add: updateProgress_def Let_def)

lemma updateProgress_fail:
  "updateJob sb (updates w) \<noteq> DbOk \<Longrightarrow>
   updateProgress sb j k n m s w = w\<lparr>updates := Suc (updates w)\<rparr>"
  by (cases "updateJob sb (updates w)") (simp_all add: updateProgress_def Let_def)

lemma updates_updateProgress [simp]:
  "updates (updateProgress sb j k n m s w) = Suc (updates w)"
  by (cases "updateJob sb (updates w)")
     (simp_all add: updateProgress_def Let_def update_row_def split: option.splits)

lemma updateProgress_row:
  "updateJob sb (updates w) = DbOk \<Longrightarrow> analysis_jobs w j = Some r \<Longrightarrow>
   analysis_jobs (updateProgress sb j k n m s w) j =
     Some (r\<lparr>current_step := n, step_message := m,
             progress_percentage := progressPercentage k, status := s\<rparr>)"
  by (simp add: updateProgress_ok update_row_def)

lemma console_update_row [simp]: "console (update_row j f w) = console w"
  by (simp add: update_row_def split: option.splits)

lemma console_updateProgress [simp]:
  "console (updateProgress sb j k n m s w) = console w"
  by (simp add: updateProgress_def Let_def split: db_outcome.splits)

lemma initialize_job_ok:
  "insertJob sb = DbOk \<Longrightarrow> \<exists>w1. initialize_job sb j w = (Inr j, w1)"
  by (simp add: initialize_job_def Let_def)

lemma initialize_job_row:
  "initialize_job sb j w = (Inr x, w1) \<Longrightarrow>
   analysis_jobs w1 j =
     Some \<lparr>job_id = j, status = ''started'', current_step = ''Initializing Analysis'',
           step_message = ''Setting up trading analysis pipeline...'',
           progress_percentage = 14, signals_generated = None, alerts_generated = None\<rparr>"
  by (cases "insertJob sb") (auto simp: initialize_job_def Let_def)

lemma history_initialize_job_fail:
  "initialize_job sb j w = (Inl e, w1) \<Longrightarrow> w1 = w"
  by (auto simp: initialize_job_def Let_def split: db_outcome.splits)

lemma console_initialize_job: "console (snd (initialize_job sb j w)) = console w"
  by (cases "insertJob sb") (simp_all add: initialize_job_def Let_def)

lemma completed_row_eq:
  "r\<lparr>current_step := ''Analysis Complete'',
     step_message := ''Generated '' @ string_of_nat n @ '' trading signals.'',
     progress_percentage := progressPercentage 7, status := ''completed''\<rparr> = completed_row n r"
  unfolding completed_row_def progress_values ..

lemma complete_job_eq:
  "complete_job sb j sigs sm w =
     (let w1 = updateProgress sb j 7 ''Analysis Complete''
                 (''Generated '' @ string_of_nat (length sigs) @ '' trading signals.'')
                 ''completed'' w
      in if updateJob sb (Suc (updates w)) = DbOk
         then update_row j (final_statistics (length sigs) (highConfidence sm))
                (w1\<lparr>updates := Suc (Suc (updates w))\<rparr>)
         else w1\<lparr>updates := Suc (Suc (updates w))\<rparr>)"
proof -
  have f: "(\<lambda>r. r\<lparr>signals_generated := Some (length sigs),
                    alerts_generated := Some (highConfidence sm)\<rparr>) =
      final_statistics (length sigs) (highConfidence sm)"
    by (intro ext) (simp add: final_statistics_def)
  show ?thesis
    unfolding complete_job_def Let_def f updates_updateProgress
    by (cases "updateJob sb (Suc (updates w))") simp_all
qed

lemma complete_job_cases:
  assumes row: "analysis_jobs w j = Some r"
  shows "history (complete_job sb j sigs sm w) =
      history w @
        (if updateJob sb (updates w) = DbOk then
           (if updateJob sb (Suc (updates w)) = DbOk
            then [completed_row (length sigs) r,
                  final_statistics (length sigs) (highConfidence sm) (completed_row (length sigs) r)]
            else [completed_row (length sigs) r])
         else
           (if updateJob sb (Suc (updates w)) = DbOk
            then [final_statistics (length sigs) (highConfidence sm) r]
            else []))"
    and "updateJob sb (updates w) = DbOk \<Longrightarrow> updateJob sb (Suc (updates w)) = DbOk \<Longrightarrow>
      analysis_jobs (complete_job sb j sigs sm w) j =
        Some (final_statistics (length sigs) (highConfidence sm) (completed_row (length sigs) r))"
proof -
  let ?n = "''Analysis Complete''"
  let ?m = "''Generated '' @ string_of_nat (length sigs) @ '' trading signals.''"
  have ok: "updateJob sb (updates w) = DbOk \<Longrightarrow>
      updateProgress sb j 7 ?n ?m ''completed'' w =
        w\<lparr>updates := Suc (updates w),
          analysis_jobs := (analysis_jobs w)(j \<mapsto> completed_row (length sigs) r),
          history := history w @ [completed_row (length sigs) r]\<rparr>"
    using row by (simp only: updateProgress_ok completed_row_eq) (simp add: update_row_def)
  have fl: "updateJob sb (updates w) \<noteq> DbOk \<Longrightarrow>
      updateProgress sb j 7 ?n ?m ''completed'' w = w\<lparr>updates := Suc (updates w)\<rparr>"
    by (rule updateProgress_fail)
  show "history (complete_job sb j sigs sm w) =
      history w @
        (if updateJob sb (updates w) = DbOk then
           (if updateJob sb (Suc (updates w)) = DbOk
            then [completed_row (length sigs) r,
                  final_statistics (length sigs) (highConfidence sm) (completed_row (length sigs) r)]
            else [completed_row (length sigs) r])
         else
           (if updateJob sb (Suc (updates w)) = DbOk
            then [final_statistics (length sigs) (highConfidence sm) r]
            else []))"
  proof (cases "updateJob sb (updates w) = DbOk")
    case True
    show ?thesis
      unfolding complete_job_eq Let_def ok[OF True] using True
      by (simp add: update_row_def)
  next
    case False
    show ?thesis
      unfolding complete_job_eq Let_def fl[OF False] using False row
      by (simp add: update_row_def)
  qed
  show "analysis_jobs (complete_job sb j sigs sm w) j =
        Some (final_statistics (length sigs) (highConfidence sm) (completed_row (length sigs) r))"
    if a: "updateJob sb (updates w) = DbOk" and b: "updateJob sb (Suc (updates w)) = DbOk"
    unfolding complete_job_eq Let_def ok[OF a] using b
    by (simp add: update_row_def)
qed

lemma row_status_parts:
  "status (final_statistics n a (completed_row n' row)) = ''completed''"
  "signals_generated (final_statistics n a (completed_row n' row)) = Some n"
  "progress_percentage (final_statistics n a (completed_row n' row)) = 100"
  by (simp_all add: final_statistics_def completed_row_def)

subsection \<open>The data capability and the selection loop\<close>

lemma getSocialMetrics_fetch_fails:
  "topic_fetch_fails makeRequest (coin_symbol coin) \<Longrightarrow>
   getSocialMetrics makeRequest coin = Inr (zero_metrics coin)"
  by (auto simp: topic_fetch_fails_def getSocialMetrics_def fetchTopicData_def zero_metrics_def
      or_zero_def split: sum.splits option.splits)

lemma not_has_real_data_zero_metrics: "\<not> has_real_data (zero_metrics coin)"
  by (simp add: has_real_data_def zero_metrics_def)

lemma all_zero_zero_metrics: "all_zero (zero_metrics c)"
  by (simp add: all_zero_def zero_metrics_def)

lemma map_filter_append: "List.map_filter f (xs @ ys) = List.map_filter f xs @ List.map_filter f ys"
  by (simp add: List.map_filter_def)

lemma map_filter_eq_Nil_iff:
  "List.map_filter f xs = [] \<longleftrightarrow> (\<forall>x\<in>set xs. f x = None)"
  by (auto simp: List.map_filter_def filter_empty_conv)

lemma take3_eq_Nil_iff: "take 3 xs = [] \<longleftrightarrow> xs = []"
  by (cases xs) simp_all

lemma complete_item_Some_iff:
  "complete_item fetch c \<noteq> None \<longleftrightarrow>
     (\<exists>m. fetch c = Inr m \<and> (mentions m > 0 \<or> interactions m > 0 \<or> creators m > 0))"
  by (auto simp: complete_item_def has_real_data_def split: sum.splits)


lemma select_loop_Cons:
  assumes "\<not> length results \<ge> 3"
  shows "select_loop sb fetch j (coin # cs) results w =
     select_loop sb fetch j cs (results @ List.map_filter (complete_item fetch) [coin])
       ((testing_coin sb j coin (length results) w)
          \<lparr>console := console w @ [verdict fetch coin]\<rparr>)"
  using assms
  by (simp add: testing_coin_def complete_item_def verdict_def has_real_data_def
      List.map_filter_simps Let_def split: sum.splits)

lemma select_loop_scan:
  "\<exists>tested rest. cs = tested @ rest \<and>
     fst (select_loop sb fetch j cs results w) = results @ List.map_filter (complete_item fetch) tested \<and>
     console (snd (select_loop sb fetch j cs results w)) = console w @ map (verdict fetch) tested \<and>
     (rest \<noteq> [] \<longrightarrow> length results + length (List.map_filter (complete_item fetch) tested) \<ge> 3) \<and>
     (tested \<noteq> [] \<longrightarrow> length results + length (List.map_filter (complete_item fetch) (butlast tested)) < 3)"
proof (induction cs arbitrary: results w)
  case Nil
  show ?case by (simp add: List.map_filter_simps)
next
  case (Cons coin cs)
  show ?case
  proof (cases "length results \<ge> 3")
    case True
    have "coin # cs = [] @ (coin # cs)" by simp
    with True show ?thesis
      by (intro exI[of _ "[]"] exI[of _ "coin # cs"]) (simp add: List.map_filter_simps)
  next
    case False
    define w1 where "w1 = updateProgress sb j 2 ''Testing Coin Data''
                   (''Checking '' @ coin_symbol coin @ '' ('' @
                    string_of_nat (length results + 1) @ ''/3 found)...'') ''started'' w"
    define results' where "results' = results @ List.map_filter (complete_item fetch) [coin]"
    define w2 where "w2 = w1\<lparr>console := console w1 @ [verdict fetch coin]\<rparr>"
    have step: "select_loop sb fetch j (coin # cs) results w = select_loop sb fetch j cs results' w2"
      using False
      by (simp add: w1_def w2_def results'_def complete_item_def verdict_def has_real_data_def
          List.map_filter_simps Let_def split: sum.splits)
    from Cons.IH[of results' w2] obtain tested rest where
      t: "cs = tested @ rest"
      "fst (select_loop sb fetch j cs results' w2) = results' @ List.map_filter (complete_item fetch) tested"
      "console (snd (select_loop sb fetch j cs results' w2)) = console w2 @ map (verdict fetch) tested"
      "rest \<noteq> [] \<longrightarrow> length results' + length (List.map_filter (complete_item fetch) tested) \<ge> 3"
      "tested \<noteq> [] \<longrightarrow> length results' + length (List.map_filter (complete_item fetch) (butlast tested)) < 3"
      by blast
    have mf: "List.map_filter (complete_item fetch) (coin # xs) =
        List.map_filter (complete_item fetch) [coin] @ List.map_filter (complete_item fetch) xs" for xs
      using map_filter_append[of "complete_item fetch" "[coin]" xs] by simp
    have c: "console w2 = console w @ [verdict fetch coin]"
      by (simp add: w2_def w1_def)
    have b: "length results + length (List.map_filter (complete_item fetch) (butlast (coin # tested))) < 3"
    proof (cases "tested = []")
      case True
      with False show ?thesis by (simp add: List.map_filter_simps)
    next
      case F: False
      then have "butlast (coin # tested) = coin # butlast tested" by simp
      with t(5) F show ?thesis by (simp add: results'_def List.map_filter_simps split: option.splits)
    qed
    have g1: "coin # cs = (coin # tested) @ rest"
      using t(1) by simp
    have g2: "fst (select_loop sb fetch j (coin # cs) results w) =
        results @ List.map_filter (complete_item fetch) (coin # tested)"
    proof -
      have "fst (select_loop sb fetch j (coin # cs) results w) =
          results' @ List.map_filter (complete_item fetch) tested"
        by (simp only: step t(2))
      also have "\<dots> = results @ List.map_filter (complete_item fetch) (coin # tested)"
        by (simp only: results'_def mf[of tested] append_assoc)
      finally show ?thesis .
    qed
    have g3: "console (snd (select_loop sb fetch j (coin # cs) results w)) =
        console w @ map (verdict fetch) (coin # tested)"
    proof -
      have "console (snd (select_loop sb fetch j (coin # cs) results w)) =
          console w2 @ map (verdict fetch) tested"
        by (simp only: step t(3))
      also have "\<dots> = console w @ map (verdict fetch) (coin # tested)"
        by (simp add: c)
      finally show ?thesis .
    qed
    have g4: "rest \<noteq> [] \<longrightarrow>
        3 \<le> length results + length (List.map_filter (complete_item fetch) (coin # tested))"
      using t(4) unfolding results'_def mf[of tested] by (simp add: add.assoc)
    have g5: "coin # tested \<noteq> [] \<longrightarrow>
        length results + length (List.map_filter (complete_item fetch) (butlast (coin # tested))) < 3"
      using b by blast
    from g1 g2 g3 g4 g5 show ?thesis by blast
  qed
qed

lemma select_nonempty_tested:
  assumes "cs = tested @ rest" "cs \<noteq> []"
    "rest \<noteq> [] \<longrightarrow> length (List.map_filter f tested) \<ge> (3::nat)"
  shows "tested \<noteq> []"
  using assms by (auto simp: List.map_filter_simps)

lemma select_loop_take:
  "fst (select_loop sb fetch j cs results w) =
     (if length results \<ge> 3 then results
      else results @ take (3 - length results) (List.map_filter (complete_item fetch) cs))"
proof (induction cs arbitrary: results w)
  case Nil
  show ?case by simp
next
  case (Cons coin cs)
  show ?case
  proof (cases "length results \<ge> 3")
    case True
    then show ?thesis by simp
  next
    case False
    show ?thesis
    proof (cases "complete_item fetch coin")
      case None
      with False show ?thesis
        by (simp only: select_loop_Cons[OF False] Cons.IH) (simp add: List.map_filter_simps)
    next
      case (Some s)
      with False show ?thesis
        by (simp only: select_loop_Cons[OF False] Cons.IH)
           (auto simp add: List.map_filter_simps take_Cons' Suc_diff_le)
    qed
  qed
qed

lemma select_step_scan:
  assumes ne: "candidates \<noteq> []"
  shows "\<exists>tested rest. candidates = tested @ rest \<and> tested \<noteq> [] \<and>
     console (snd (select_and_fetch_data sb fetch j (Some candidates) w)) =
       console w @ map (verdict fetch) tested \<and>
     List.map_filter (complete_item fetch) tested =
       take 3 (List.map_filter (complete_item fetch) candidates) \<and>
     (rest \<noteq> [] \<longrightarrow> length (List.map_filter (complete_item fetch) tested) = 3) \<and>
     length (List.map_filter (complete_item fetch) (butlast tested)) < 3 \<and>
     fst (select_and_fetch_data sb fetch j (Some candidates) w) =
       (if take 3 (List.map_filter (complete_item fetch) candidates) = []
        then Inl (Error ''No coins with complete social data found in top 10'')
        else Inr (take 3 (List.map_filter (complete_item fetch) candidates)))"
proof -
  define w1 where "w1 = updateProgress sb j 2 ''Selecting Best Coins''
                 ''Testing top 10 candidates for complete social data...'' ''started'' w"
  define found where "found = take 3 (List.map_filter (complete_item fetch) candidates)"
  from select_loop_scan[of candidates sb fetch j "[]" w1] obtain tested rest where
    t: "candidates = tested @ rest"
    "fst (select_loop sb fetch j candidates [] w1) = List.map_filter (complete_item fetch) tested"
    "console (snd (select_loop sb fetch j candidates [] w1)) = console w1 @ map (verdict fetch) tested"
    "rest \<noteq> [] \<longrightarrow> length (List.map_filter (complete_item fetch) tested) \<ge> 3"
    "tested \<noteq> [] \<longrightarrow> length (List.map_filter (complete_item fetch) (butlast tested)) < 3"
    by auto
  have tne: "tested \<noteq> []"
    using select_nonempty_tested[OF t(1) ne t(4)] .
  have f: "fst (select_loop sb fetch j candidates [] w1) = found"
    by (simp add: select_loop_take found_def)
  have mf: "List.map_filter (complete_item fetch) tested = found"
    using t(2) f by simp
  have "length found \<le> 3" by (simp add: found_def)
  with t(4) mf have r3: "rest \<noteq> [] \<longrightarrow> length (List.map_filter (complete_item fetch) tested) = 3"
    by auto
  obtain w2 where sl: "select_loop sb fetch j candidates [] w1 = (found, w2)"
    using f by (cases "select_loop sb fetch j candidates [] w1") simp
  have c: "console w2 = console w @ map (verdict fetch) tested"
  proof -
    have "console w1 = console w" by (simp add: w1_def)
    with t(3) show ?thesis by (simp add: sl)
  qed
  have res: "fst (select_and_fetch_data sb fetch j (Some candidates) w) =
       (if found = [] then Inl (Error ''No coins with complete social data found in top 10'')
        else Inr found)"
    using ne by (simp add: select_and_fetch_data_def Let_def w1_def[symmetric] sl)
  have con: "console (snd (select_and_fetch_data sb fetch j (Some candidates) w)) =
       console w @ map (verdict fetch) tested"
    using ne c by (simp add: select_and_fetch_data_def Let_def w1_def[symmetric] sl)
  from t(1) tne con mf r3 t(5) res show ?thesis
    unfolding found_def by blast
qed

lemma selected_success:
  assumes "fst (select_and_fetch_data sb fetch j tc w) = Inr items"
  shows "\<forall>r\<in>set items. success r"
proof -
  obtain cs where cs: "tc = Some cs" "cs \<noteq> []"
    using assms by (cases tc; cases "the tc") (auto simp: select_and_fetch_data_def Let_def)
  from select_step_scan[OF cs(2), of sb fetch j w] assms cs(1)
  have "items = take 3 (List.map_filter (complete_item fetch) cs)"
    by (auto split: if_splits)
  moreover have "\<forall>r\<in>set (List.map_filter (complete_item fetch) cs). success r"
    by (auto simp: List.map_filter_def complete_item_def split: sum.splits if_splits)
  ultimately show ?thesis by (auto dest: in_set_takeD)
qed

subsection \<open>The binary64 quotient\<close>

lemma round_ties_even_ge: "of_int n \<le> x \<Longrightarrow> n \<le> round_ties_even x"
proof -
  assume "of_int n \<le> x"
  then have "n \<le> \<lfloor>x\<rfloor>" by (simp add: le_floor_iff)
  then show ?thesis by (simp add: round_ties_even_def Let_def)
qed

lemma round_ties_even_le: "x \<le> of_int n \<Longrightarrow> round_ties_even x \<le> n"
proof -
  assume a: "x \<le> of_int n"
  then have f: "\<lfloor>x\<rfloor> \<le> n" by (simp add: floor_le_iff)
  show ?thesis
  proof (cases "\<lfloor>x\<rfloor> = n")
    case True
    with a have "x - of_int \<lfloor>x\<rfloor> \<le> 0" by simp
    then show ?thesis using True by (simp add: round_ties_even_def Let_def)
  next
    case False
    with f have "\<lfloor>x\<rfloor> + 1 \<le> n" by simp
    then show ?thesis by (simp add: round_ties_even_def Let_def)
  qed
qed

lemma round_ties_even_gt_even:
  assumes "even n"
  shows "n < round_ties_even x \<longleftrightarrow> of_int n + 1 / 2 < x"
proof
  assume a: "of_int n + 1 / 2 < x"
  then have "of_int n \<le> x" by simp
  then have f: "n \<le> \<lfloor>x\<rfloor>" by (simp add: le_floor_iff)
  show "n < round_ties_even x"
  proof (cases "\<lfloor>x\<rfloor> = n")
    case True
    with a have "1 / 2 < x - of_int \<lfloor>x\<rfloor>" by simp
    then show ?thesis using True by (simp add: round_ties_even_def Let_def)
  next
    case False
    with f have "n < \<lfloor>x\<rfloor>" by simp
    then show ?thesis by (simp add: round_ties_even_def Let_def)
  qed
next
  assume a: "n < round_ties_even x"
  show "of_int n + 1 / 2 < x"
  proof (rule ccontr)
    assume "\<not> of_int n + 1 / 2 < x"
    then have b: "x \<le> of_int n + 1 / 2" by simp
    then have "x < of_int n + 1" by simp
    then have f: "\<lfloor>x\<rfloor> \<le> n" by (simp add: floor_le_iff)
    show False
    proof (cases "\<lfloor>x\<rfloor> = n")
      case True
      with b have "x - of_int \<lfloor>x\<rfloor> \<le> 1 / 2" by simp
      then have "round_ties_even x = n"
        using True assms by (simp add: round_ties_even_def Let_def)
      with a show False by simp
    next
      case False
      with f have "\<lfloor>x\<rfloor> + 1 \<le> n" by simp
      then have "round_ties_even x \<le> n" by (simp add: round_ties_even_def Let_def)
      with a show False by simp
    qed
  qed
qed

lemma of_int_bitlen_bounds:
  assumes "0 < p"
  shows "2 powi (bitlen p - 1) \<le> rat_of_int p" "rat_of_int p < 2 powi (bitlen p)"
proof -
  from bitlen_bounds[OF assms] have b: "2 ^ nat (bitlen p - 1) \<le> p" "p < 2 ^ nat (bitlen p)"
    by simp_all
  have ge: "1 \<le> bitlen p" using assms by (simp add: bitlen_alt_def)
  have "rat_of_int (2 ^ nat (bitlen p - 1)) \<le> rat_of_int p"
    using b(1) by (simp only: of_int_le_iff)
  then show "2 powi (bitlen p - 1) \<le> rat_of_int p" using ge by (simp add: power_int_def)
  have "rat_of_int p < rat_of_int (2 ^ nat (bitlen p))"
    using b(2) by (simp only: of_int_less_iff)
  then show "rat_of_int p < 2 powi (bitlen p)" using ge by (simp add: power_int_def)
qed

lemma ilog2_bounds:
  assumes "0 < x"
  shows "2 powi (ilog2 x) \<le> x" "x < 2 powi (ilog2 x + 1)"
proof -
  obtain p q where pq: "quotient_of x = (p, q)" by (cases "quotient_of x")
  have q: "0 < q" by (rule quotient_of_denom_pos[OF pq])
  have x: "x = rat_of_int p / rat_of_int q" by (rule quotient_of_div[OF pq])
  have p: "0 < p" using assms q unfolding x by (simp add: zero_less_divide_iff)
  define k where "k = bitlen p - bitlen q"
  note bp = of_int_bitlen_bounds[OF p] and bq = of_int_bitlen_bounds[OF q]
  have e1: "(2::rat) powi (k + 1) * 2 powi (bitlen q - 1) = 2 powi (bitlen p)"
    by (simp add: k_def flip: power_int_add)
  have e2: "(2::rat) powi (k - 1) * 2 powi (bitlen q) = 2 powi (bitlen p - 1)"
    by (simp add: k_def flip: power_int_add)
  have pos: "(0::rat) < 2 powi m" for m by (simp add: zero_less_power_int)
  have "rat_of_int p < 2 powi (k + 1) * 2 powi (bitlen q - 1)" using bp(2) e1 by simp
  also have "\<dots> \<le> 2 powi (k + 1) * rat_of_int q"
    using bq(1) pos[of "k + 1"] by (simp add: mult_left_mono)
  finally have up: "x < 2 powi (k + 1)" using q unfolding x by (simp add: pos_divide_less_eq)
  have "2 powi (k - 1) * rat_of_int q < 2 powi (k - 1) * 2 powi (bitlen q)"
    using bq(2) pos[of "k - 1"] by (simp add: mult_strict_left_mono)
  also have "\<dots> \<le> rat_of_int p" using bp(1) e2 by simp
  finally have lo: "2 powi (k - 1) \<le> x" using q unfolding x by (simp add: pos_le_divide_eq)
  have i: "ilog2 x = (if 2 powi k \<le> x then k else k - 1)"
    by (simp add: ilog2_def pq k_def Let_def)
  show "2 powi (ilog2 x) \<le> x" using lo by (simp add: i)
  show "x < 2 powi (ilog2 x + 1)" using up by (simp add: i not_le)
qed

lemma binary64_nonpos: "x \<le> 0 \<Longrightarrow> binary64 x \<le> 0"
proof (cases "x = 0")
  case True
  then show ?thesis by (simp add: binary64_def)
next
  case False
  assume "x \<le> 0"
  define u :: rat where "u = 2 powi (max (ilog2 \<bar>x\<bar>) (- 1022) - 52)"
  have u: "0 < u" by (simp add: u_def zero_less_power_int)
  have "x / u \<le> rat_of_int 0" using \<open>x \<le> 0\<close> u by (simp add: divide_le_0_iff)
  then have "round_ties_even (x / u) \<le> 0" by (rule round_ties_even_le)
  then have "rat_of_int (round_ties_even (x / u)) * u \<le> 0"
    using u by (simp add: mult_le_0_iff)
  then show ?thesis using False by (simp add: binary64_def Let_def u_def)
qed

text \<open>
  The binary64 value after 100 is \<open>100 + 1 / 2 ^ 46\<close>, and the significand of 100 is
  even: a quotient rounds to more than 100 exactly when it is above the midpoint.
\<close>

lemma binary64_gt_100_iff: "100 < binary64 x \<longleftrightarrow> 100 + 1 / 2 ^ 47 < x"
proof (cases "x \<le> 0")
  case True
  have "(0::rat) \<le> 1 / 2 ^ 47" by simp
  with binary64_nonpos[OF True] True show ?thesis by linarith
next
  case False
  then have x: "0 < x" by simp
  define e where "e = ilog2 x"
  define e' where "e' = max e (- 1022)"
  define u :: rat where "u = 2 powi (e' - 52)"
  define r where "r = round_ties_even (x / u)"
  have u: "0 < u" by (simp add: u_def zero_less_power_int)
  have b: "binary64 x = rat_of_int r * u"
    using x by (simp add: binary64_def Let_def r_def u_def e'_def e_def)
  note br = ilog2_bounds[OF x, folded e_def]
  have s52: "(2::rat) powi e' = 2 ^ 52 * u"
    using power_int_add[of "2::rat" 52 "e' - 52"] by (simp add: u_def)
  have s53: "(2::rat) powi (e' + 1) = 2 ^ 53 * u"
    using power_int_add[of "2::rat" 53 "e' - 52"] by (simp add: u_def add.commute)
  have "e + 1 \<le> e' + 1" by (simp add: e'_def)
  from power_int_increasing[OF this, of "2::rat"] br(2)
  have "x < 2 powi (e' + 1)" by simp
  then have hi: "x / u \<le> rat_of_int (2 ^ 53)"
    using u by (simp add: s53 pos_divide_le_eq)
  have rhi: "r \<le> 2 ^ 53" unfolding r_def by (rule round_ties_even_le[OF hi])
  consider (big) "7 \<le> e" | (small) "e \<le> 5" | (mid) "e = 6" by linarith
  then show ?thesis
  proof cases
    case big
    then have ee: "e' = e" by (simp add: e'_def)
    have lo: "rat_of_int (2 ^ 52) \<le> x / u"
      using br(1) u by (simp add: s52[unfolded ee] pos_le_divide_eq)
    have rlo: "2 ^ 52 \<le> r" unfolding r_def by (rule round_ties_even_ge[OF lo])
    have p: "(2::rat) powi 7 \<le> 2 powi e" by (rule power_int_increasing[OF big]) simp
    have "rat_of_int (2 ^ 52) \<le> rat_of_int r" using rlo by (simp only: of_int_le_iff)
    then have "rat_of_int (2 ^ 52) * u \<le> rat_of_int r * u"
      using u by (intro mult_right_mono) simp_all
    then have "2 powi e \<le> rat_of_int r * u" unfolding s52[unfolded ee] by simp
    with p have "128 \<le> binary64 x" by (simp add: b)
    moreover from p br(1) have "128 \<le> x" by simp
    moreover have "(1::rat) / 2 ^ 47 \<le> 1" by simp
    ultimately show ?thesis by linarith
  next
    case small
    then have "e' + 1 \<le> 6" by (simp add: e'_def)
    from power_int_increasing[OF this, of "2::rat"]
    have p: "(2::rat) powi (e' + 1) \<le> 64" by simp
    have "e + 1 \<le> 6" using small by simp
    from power_int_increasing[OF this, of "2::rat"]
    have p': "(2::rat) powi (e + 1) \<le> 64" by simp
    have "rat_of_int r \<le> rat_of_int (2 ^ 53)" using rhi by (simp only: of_int_le_iff)
    then have "rat_of_int r * u \<le> rat_of_int (2 ^ 53) * u"
      using u by (intro mult_right_mono) simp_all
    then have "rat_of_int r * u \<le> 2 powi (e' + 1)" unfolding s53 by simp
    with p have "binary64 x \<le> 64" by (simp add: b)
    moreover from p' br(2) have "x < 64" by simp
    moreover have "(0::rat) \<le> 1 / 2 ^ 47" by simp
    ultimately show ?thesis by linarith
  next
    case mid
    then have ee: "e' = 6" by (simp add: e'_def)
    have u46: "u = 1 / 2 ^ 46" by (simp add: u_def ee power_int_minus_divide)
    have ev: "even (100 * 2 ^ 46 :: int)" by simp
    have "100 < binary64 x \<longleftrightarrow> rat_of_int (100 * 2 ^ 46) < rat_of_int r"
      unfolding b u46 by (simp add: field_simps)
    also have "\<dots> \<longleftrightarrow> 100 * 2 ^ 46 < r" by (simp only: of_int_less_iff)
    also have "\<dots> \<longleftrightarrow> rat_of_int (100 * 2 ^ 46) + 1 / 2 < x / u"
      unfolding r_def by (rule round_ties_even_gt_even[OF ev])
    also have "\<dots> \<longleftrightarrow> 100 + 1 / 2 ^ 47 < x"
      unfolding u46 by (simp add: field_simps)
    finally show ?thesis .
  qed
qed

lemma engagementRatio_high: "100 < engagementRatio metrics \<longleftrightarrow> high_engagement metrics"
  by (simp add: engagementRatio_def js_divide_def binary64_gt_100_iff high_engagement_def)

lemma high_engagement_exact:
  assumes "mentions metrics < 2 ^ 47"
  shows "high_engagement metrics \<longleftrightarrow>
     100 * max (mentions metrics) 1 < interactions metrics"
proof -
  define a where "a = interactions metrics"
  define b where "b = max (mentions metrics) 1"
  have b: "1 \<le> b" "b < 2 ^ 47" using assms by (simp_all add: b_def)
  then have bpos: "0 < rat_of_int b" by simp
  have bb: "rat_of_int b < 2 ^ 47"
    using b(2) of_int_less_iff[of b "2 ^ 47", where 'a = rat] by simp
  have h: "high_engagement metrics \<longleftrightarrow> (100 + 1 / 2 ^ 47) * rat_of_int b < rat_of_int a"
    unfolding high_engagement_def a_def[symmetric] b_def[symmetric]
    using bpos by (simp only: pos_less_divide_eq)
  show ?thesis unfolding h a_def[symmetric] b_def[symmetric]
  proof
    assume "(100 + 1 / 2 ^ 47) * rat_of_int b < rat_of_int a"
    moreover have "100 * rat_of_int b \<le> (100 + 1 / 2 ^ 47) * rat_of_int b"
      using bpos by (simp add: algebra_simps)
    ultimately have "rat_of_int (100 * b) < rat_of_int a" by simp
    then show "100 * b < a" by (simp only: of_int_less_iff)
  next
    assume "100 * b < a"
    then have "100 * b + 1 \<le> a" by simp
    then have "rat_of_int (100 * b + 1) \<le> rat_of_int a" by (simp only: of_int_le_iff)
    then have g: "100 * rat_of_int b + 1 \<le> rat_of_int a" by simp
    have "rat_of_int b / 2 ^ 47 < 1" using bb by simp
    then have "(100 + 1 / 2 ^ 47) * rat_of_int b < 100 * rat_of_int b + 1"
      by (simp add: algebra_simps)
    with g show "(100 + 1 / 2 ^ 47) * rat_of_int b < rat_of_int a" by simp
  qed
qed

lemma positiveSignals_indicators: "positiveSignals metrics = positive_indicators metrics"
  by (simp add: positiveSignals_def positive_indicators_def engagementRatio_high)

subsection \<open>Scoring and saving\<close>

lemma positiveSignals_le: "positiveSignals metrics \<le> 4"
  unfolding positiveSignals_def
  by (rule order_trans[OF length_filter_le]) simp

lemma fallback_rule:
  "signal (createFallbackSignal symbol metrics) =
     (if positiveSignals metrics \<ge> 3 then BUY
      else if positiveSignals metrics \<le> 1 then SELL else HOLD)"
  "confidence (createFallbackSignal symbol metrics) =
     (if positiveSignals metrics \<ge> 3 then 60 + 10 * int (positiveSignals metrics)
      else if positiveSignals metrics \<le> 1 then 60 else 50)"
  by (simp_all add: createFallbackSignal_def Let_def)

lemma generate_ai_signals_fst:
  "fst (generate_ai_signals sb scoreOne j items w) =
     concat (map (score_item scoreOne) (filter success items))"
proof -
  have "map the (filter (\<lambda>s. s \<noteq> None)
          (map (\<lambda>result. catch_null (scoreOne (sel_symbol result) (sel_metrics result))) xs)) =
        concat (map (score_item scoreOne) xs)" for xs
    by (induction xs) (auto simp: catch_null_def score_item_def split: sum.splits)
  then show ?thesis by (simp add: generate_ai_signals_def Let_def)
qed

lemma length_score_items:
  "length (concat (map (score_item scoreOne) xs)) + length (filter (score_fails scoreOne) xs) =
     length xs"
  by (induction xs) (auto simp: score_item_def score_fails_def split: sum.splits)

lemma save_loop_fst:
  "fst (save_loop sb j c i sigs res w) = res @ save_flags sb i sigs"
proof (induction sigs arbitrary: i res w)
  case Nil
  show ?case by simp
next
  case (Cons sg sigs)
  show ?case
    by (cases "insertSignal sb i sg") (simp_all add: Cons.IH)
qed

lemma save_to_database_fst:
  "fst (save_to_database sb j sigs w) = save_flags sb 0 sigs"
  by (simp add: save_to_database_def Let_def save_loop_fst)

subsection \<open>The summary\<close>

lemma insert_by_insort:
  "insert_by by_confidence_desc x ys = insort_key (\<lambda>s. - confidence s) x ys"
  by (induction ys) (auto simp: by_confidence_desc_def)

lemma js_sort_sort_key:
  "js_sort by_confidence_desc xs = sort_key (\<lambda>s. - confidence s) xs"
proof -
  have "insert_by by_confidence_desc = insort_key (\<lambda>s. - confidence s)"
    by (intro ext) (rule insert_by_insort)
  then show ?thesis by (simp add: js_sort_def sort_key_def)
qed

lemma js_sort_descending:
  "sorted_wrt (\<lambda>a b. confidence a \<ge> confidence b) (js_sort by_confidence_desc xs)"
proof -
  have "sorted (map (\<lambda>s. - confidence s) (js_sort by_confidence_desc xs))"
    unfolding js_sort_sort_key by (rule sorted_sort_key)
  then show ?thesis by (simp add: sorted_map)
qed

lemma js_sort_stable:
  "filter (\<lambda>s. confidence s = c) (js_sort by_confidence_desc xs) =
   filter (\<lambda>s. confidence s = c) xs"
proof -
  have "filter (\<lambda>s. - confidence s = - c) (sort_key (\<lambda>s. - confidence s) xs) =
      filter (\<lambda>s. - confidence s = - c) xs"
    by (rule sort_key_stable)
  then show ?thesis by (simp add: js_sort_sort_key)
qed

lemma summarize_parts:
  "snd (summarize xs) = js_sort by_confidence_desc xs"
  "topSignals (fst (summarize xs)) = map top_of (take 3 (js_sort by_confidence_desc xs))"
  "totalAnalyzed (fst (summarize xs)) = length xs"
  by (simp_all add: summarize_def Let_def top_of_def)

lemma generate_summary_parts:
  "fst (generate_summary sb j sigs w) = fst (summarize sigs)"
  "fst (snd (generate_summary sb j sigs w)) = js_sort by_confidence_desc sigs"
  by (simp_all add: generate_summary_def summarize_def Let_def)

subsection \<open>The invariant of a run\<close>

lemma sorted_le_last:
  "sorted (map f xs) \<Longrightarrow> y \<in> set xs \<Longrightarrow> f y \<le> f (last xs)"
  by (induction xs) auto

lemma run_inv_mono: "run_inv j w0 b w \<Longrightarrow> b \<le> b' \<Longrightarrow> run_inv j w0 b' w"
  unfolding run_inv_def by force

lemma run_inv_console [simp]: "run_inv j w0 b (w\<lparr>console := c\<rparr>) = run_inv j w0 b w"
  by (simp add: run_inv_def)

lemma run_inv_trading_signals [simp]:
  "run_inv j w0 b (w\<lparr>trading_signals := c\<rparr>) = run_inv j w0 b w"
  by (simp add: run_inv_def)

lemma run_inv_updates [simp]:
  "run_inv j w0 b (w\<lparr>updates := c\<rparr>) = run_inv j w0 b w"
  by (simp add: run_inv_def)

lemma run_inv_update_row:
  assumes inv: "run_inv j w0 b w"
    and st: "\<And>r. status (f r) = ''started''"
    and lo: "\<And>r. progress_percentage r \<le> b \<Longrightarrow> b \<le> progress_percentage (f r)"
    and hi: "\<And>r. progress_percentage r \<le> b \<Longrightarrow> progress_percentage (f r) \<le> b'"
    and vs: "\<And>r. progress_percentage (f r) \<in> step_values"
  shows "run_inv j w0 b' (update_row j f w)"
proof -
  from inv obtain new where n: "history w = history w0 @ new" "new \<noteq> []"
    "sorted (map progress_percentage new)"
    "\<forall>r\<in>set new. progress_percentage r \<le> b \<and> status r = ''started'' \<and>
       progress_percentage r \<in> step_values"
    "analysis_jobs w j = Some (last new)"
    unfolding run_inv_def by blast
  let ?r = "f (last new)"
  have l: "progress_percentage (last new) \<le> b" using n(2,4) by simp
  have bb: "b \<le> b'" using lo[OF l] hi[OF l] by simp
  have h: "history (update_row j f w) = history w0 @ (new @ [?r])"
    by (simp add: update_row_def n(1,5))
  have a: "analysis_jobs (update_row j f w) j = Some (last (new @ [?r]))"
    by (simp add: update_row_def n(5))
  have s: "sorted (map progress_percentage (new @ [?r]))"
    using n(3,4) lo[OF l] by (force simp: sorted_append)
  have q: "\<forall>r\<in>set (new @ [?r]). progress_percentage r \<le> b' \<and> status r = ''started'' \<and>
      progress_percentage r \<in> step_values"
    using n(4) bb hi[OF l] st vs by force
  show ?thesis unfolding run_inv_def
    using h a s q by blast
qed

lemma run_inv_updateProgress:
  assumes "run_inv j w0 b w" "b \<le> progressPercentage k" "progressPercentage k \<in> step_values"
  shows "run_inv j w0 (progressPercentage k) (updateProgress sb j k n m ''started'' w)"
proof (cases "updateJob sb (updates w)")
  case DbOk
  have "run_inv j w0 b (w\<lparr>updates := Suc (updates w)\<rparr>)" using assms(1) by simp
  then have "run_inv j w0 (progressPercentage k) (update_row j
               (\<lambda>r. r\<lparr>current_step := n, step_message := m,
                      progress_percentage := progressPercentage k, status := ''started''\<rparr>)
               (w\<lparr>updates := Suc (updates w)\<rparr>))"
    by (rule run_inv_update_row) (use assms(2,3) in simp_all)
  with DbOk show ?thesis by (simp add: updateProgress_def Let_def)
next
  case DbError
  with run_inv_mono[OF assms(1,2)] show ?thesis by (simp add: updateProgress_def Let_def)
next
  case DbThrows
  with run_inv_mono[OF assms(1,2)] show ?thesis by (simp add: updateProgress_def Let_def)
qed

lemma run_inv_initialize_job:
  "initialize_job sb j w = (Inr x, w1) \<Longrightarrow> run_inv j w 14 w1"
  unfolding run_inv_def initialize_job_def
  by (auto simp: Let_def step_values_def split: db_outcome.splits intro!: exI[of _ "[r]" for r])

lemma run_inv_select_loop:
  "run_inv j w0 29 w \<Longrightarrow> run_inv j w0 29 (snd (select_loop sb fetch j cs results w))"
proof (induction cs arbitrary: results w)
  case Nil
  then show ?case by simp
next
  case (Cons coin cs)
  have u: "run_inv j w0 29 (updateProgress sb j 2 n m ''started'' w)" for n m
    using run_inv_updateProgress[OF Cons.prems, of 2 sb n m] by (simp add: progress_values step_values_progress)
  show ?case
    using Cons.prems u by (auto simp: Let_def split: sum.splits intro!: Cons.IH)
qed

lemma run_inv_select_and_fetch_data:
  assumes "run_inv j w0 14 w"
  shows "run_inv j w0 43 (snd (select_and_fetch_data sb fetch j tc w))"
proof -
  have u: "run_inv j w0 29 (updateProgress sb j 2 n m ''started'' w)" for n m
    using run_inv_updateProgress[OF assms, of 2 sb n m] by (simp add: progress_values step_values_progress)
  have l: "run_inv j w0 29 (snd (select_loop sb fetch j cs [] (updateProgress sb j 2 n m ''started'' w)))" for cs n m
    by (rule run_inv_select_loop[OF u])
  have f: "run_inv j w0 43 (updateProgress sb j 3 n' m' ''started''
        (snd (select_loop sb fetch j cs [] (updateProgress sb j 2 n m ''started'' w))))" for cs n m n' m'
    using run_inv_updateProgress[OF l, of 3 sb] by (simp add: progress_values step_values_progress)
  show ?thesis
    using run_inv_mono[OF u, of 43] run_inv_mono[OF l, of 43] f
    by (simp add: select_and_fetch_data_def Let_def case_prod_beta)
qed

lemma run_inv_generate_ai_signals:
  assumes "run_inv j w0 43 w"
  shows "run_inv j w0 57 (snd (generate_ai_signals sb scoreOne j items w))"
proof -
  have u: "run_inv j w0 57 (updateProgress sb j 4 n m ''started'' w)" for n m
    using run_inv_updateProgress[OF assms, of 4 sb n m] by (simp add: progress_values step_values_progress)
  have "run_inv j w0 57 (updateProgress sb j 4 n' m' ''started'' (updateProgress sb j 4 n m ''started'' w))" for n m n' m'
    using run_inv_updateProgress[OF u, of 4 sb] by (simp add: progress_values step_values_progress)
  then show ?thesis by (simp add: generate_ai_signals_def Let_def)
qed

lemma run_inv_save_loop:
  "run_inv j w0 71 w \<Longrightarrow> run_inv j w0 71 (snd (save_loop sb j c i sigs res w))"
proof (induction sigs arbitrary: i res w)
  case Nil
  then show ?case by simp
next
  case (Cons sg sigs)
  have "run_inv j w0 71 (w\<lparr>trading_signals := trading_signals w @ [sg]\<rparr>)"
    using Cons.prems by simp
  from run_inv_updateProgress[OF this, of 5 sb]
  have u: "run_inv j w0 71 (updateProgress sb j 5 n m ''started''
      (w\<lparr>trading_signals := trading_signals w @ [sg]\<rparr>))" for n m
    by (simp add: progress_values step_values_progress)
  show ?case
    using Cons.prems u by (auto split: db_outcome.splits intro!: Cons.IH)
qed

lemma run_inv_save_to_database:
  assumes "run_inv j w0 57 w"
  shows "run_inv j w0 71 (snd (save_to_database sb j sigs w))"
proof -
  have u: "run_inv j w0 71 (updateProgress sb j 5 n m ''started'' w)" for n m
    using run_inv_updateProgress[OF assms, of 5 sb n m] by (simp add: progress_values step_values_progress)
  show ?thesis
    by (simp add: save_to_database_def Let_def run_inv_save_loop[OF u])
qed

lemma run_inv_generate_summary:
  assumes "run_inv j w0 71 w"
  shows "run_inv j w0 86 (snd (snd (generate_summary sb j sigs w)))"
  using run_inv_updateProgress[OF assms, of 6 sb]
  by (simp add: generate_summary_def Let_def case_prod_beta progress_values step_values_progress)

lemma run_inv_send_notifications:
  assumes "run_inv j w0 86 w"
  shows "run_inv j w0 86 (send_notifications sb j sigs w)"
  using run_inv_updateProgress[OF assms, of 6 sb] assms
  by (simp add: send_notifications_def Let_def progress_values step_values_progress)

lemma run_inv_imp_done:
  assumes "run_inv j w0 b w"
  shows "run_done w0 w"
proof -
  from assms obtain new where n: "history w = history w0 @ new"
    "sorted (map progress_percentage new)"
    "\<forall>r\<in>set new. progress_percentage r \<le> b \<and> status r = ''started'' \<and>
       progress_percentage r \<in> step_values"
    unfolding run_inv_def by blast
  show ?thesis unfolding run_done_def
    using n by (intro exI[of _ new] exI[of _ "[]"]) auto
qed

lemma run_done_refl: "run_done w w"
  unfolding run_done_def by (intro exI[of _ "[]"]) simp

lemma run_done_complete_job:
  assumes inv: "run_inv j w0 86 w"
  shows "run_done w0 (complete_job sb j sigs sm w)"
proof -
  from inv obtain new where n: "history w = history w0 @ new" "new \<noteq> []"
    "sorted (map progress_percentage new)"
    "\<forall>r\<in>set new. progress_percentage r \<le> 86 \<and> status r = ''started'' \<and>
       progress_percentage r \<in> step_values"
    "analysis_jobs w j = Some (last new)"
    unfolding run_inv_def by blast
  let ?c = "completed_row (length sigs) (last new)"
  let ?f = "final_statistics (length sigs) (highConfidence sm)"
  note h = complete_job_cases(1)[OF n(5), of sb sigs sm]
  have pc: "progress_percentage ?c = 100" "status ?c = ''completed''"
    "progress_percentage (?f ?c) = 100" "status (?f ?c) = ''completed''"
    by (simp_all add: completed_row_def final_statistics_def)
  have pf: "progress_percentage (?f (last new)) = progress_percentage (last new)"
    "status (?f (last new)) = ''started''"
    using n(2,4) by (simp_all add: final_statistics_def)
  have le: "\<forall>r\<in>set new. progress_percentage r \<le> 100"
    using n(4) by force
  have ll: "\<forall>r\<in>set new. progress_percentage r \<le> progress_percentage (last new)"
    using sorted_le_last[OF n(3)] by blast
  have lv: "progress_percentage (last new) \<in> step_values"
    using n(2,4) by simp
  note hundred = step_values_progress(7)
  consider (a) "updateJob sb (updates w) = DbOk" "updateJob sb (Suc (updates w)) = DbOk"
    | (b) "updateJob sb (updates w) = DbOk" "updateJob sb (Suc (updates w)) \<noteq> DbOk"
    | (c) "updateJob sb (updates w) \<noteq> DbOk" "updateJob sb (Suc (updates w)) = DbOk"
    | (d) "updateJob sb (updates w) \<noteq> DbOk" "updateJob sb (Suc (updates w)) \<noteq> DbOk"
    by blast
  then show ?thesis
  proof cases
    case a
    have "history (complete_job sb j sigs sm w) = history w0 @ new @ [?c, ?f ?c]"
      using h a by (simp add: n(1))
    moreover have "sorted (map progress_percentage (new @ [?c, ?f ?c]))"
      using n(3) le pc by (simp add: sorted_append)
    ultimately show ?thesis unfolding run_done_def
      using n(4) pc hundred by (intro exI[of _ new] exI[of _ "[?c, ?f ?c]"]) auto
  next
    case b
    have "history (complete_job sb j sigs sm w) = history w0 @ new @ [?c]"
      using h b by (simp add: n(1))
    moreover have "sorted (map progress_percentage (new @ [?c]))"
      using n(3) le pc by (simp add: sorted_append)
    ultimately show ?thesis unfolding run_done_def
      using n(4) pc hundred by (intro exI[of _ new] exI[of _ "[?c]"]) auto
  next
    case c
    have "history (complete_job sb j sigs sm w) = history w0 @ (new @ [?f (last new)]) @ []"
      using h c by (simp add: n(1))
    moreover have "sorted (map progress_percentage ((new @ [?f (last new)]) @ []))"
      using n(3) ll pf by (simp add: sorted_append)
    ultimately show ?thesis unfolding run_done_def
      using n(4) pf lv by (intro exI[of _ "new @ [?f (last new)]"] exI[of _ "[]"]) auto
  next
    case d
    have "history (complete_job sb j sigs sm w) = history w0 @ new @ []"
      using h d by (simp add: n(1))
    then show ?thesis unfolding run_done_def
      using n(3,4) by (intro exI[of _ new] exI[of _ "[]"]) auto
  qed
qed

subsection \<open>The workflow as a whole\<close>

lemma run_steps_no_job:
  "jobId ev = None \<or> jobId ev = Some [] \<Longrightarrow>
   run_steps sb fetch scoreOne ev w = (Inl (Error ''No job ID provided in event data''), w)"
  by (auto simp: run_steps_def)

lemma run_steps_init_fail:
  "jobId ev = Some j \<Longrightarrow> j \<noteq> [] \<Longrightarrow> initialize_job sb j w = (Inl e, w1) \<Longrightarrow>
   run_steps sb fetch scoreOne ev w = (Inl e, w1)"
  by (simp add: run_steps_def)

lemma run_steps_select_fail:
  "jobId ev = Some j \<Longrightarrow> j \<noteq> [] \<Longrightarrow> initialize_job sb j w = (Inr x, w1) \<Longrightarrow>
   select_and_fetch_data sb fetch j (topCoins ev) w1 = (Inl e, w2) \<Longrightarrow>
   run_steps sb fetch scoreOne ev w = (Inl e, w2)"
  by (simp add: run_steps_def)

lemma run_steps_ok:
  "jobId ev = Some j \<Longrightarrow> j \<noteq> [] \<Longrightarrow> initialize_job sb j w = (Inr x, w1) \<Longrightarrow>
   select_and_fetch_data sb fetch j (topCoins ev) w1 = (Inr sm, w2) \<Longrightarrow>
   generate_ai_signals sb scoreOne j sm w2 = (sigs, w3) \<Longrightarrow>
   save_to_database sb j sigs w3 = (saved, w4) \<Longrightarrow>
   generate_summary sb j sigs w4 = (summ, sigs', w5) \<Longrightarrow>
   run_steps sb fetch scoreOne ev w =
     (Inr \<lparr>run_jobId = j, run_socialMetrics = sm, run_tradingSignals = sigs,
           run_savedSignals = saved, run_summary = summ, run_tradingSignals_final = sigs'\<rparr>,
      complete_job sb j sigs' summ (send_notifications sb j sigs' w5))"
  by (simp add: run_steps_def Let_def)

lemma run_inv_before_complete:
  assumes "initialize_job sb j w = (Inr x, w1)"
    "select_and_fetch_data sb fetch j tc w1 = (Inr sm, w2)"
    "generate_ai_signals sb scoreOne j sm w2 = (sigs, w3)"
    "save_to_database sb j sigs w3 = (saved, w4)"
    "generate_summary sb j sigs w4 = (summ, sigs', w5)"
  shows "run_inv j w 86 (send_notifications sb j sigs' w5)"
proof -
  have 1: "run_inv j w 14 w1" using run_inv_initialize_job[OF assms(1)] .
  have 2: "run_inv j w 43 w2"
    using run_inv_select_and_fetch_data[OF 1, of sb fetch tc] assms(2) by simp
  have 3: "run_inv j w 57 w3"
    using run_inv_generate_ai_signals[OF 2, of sb scoreOne sm] assms(3) by simp
  have 4: "run_inv j w 71 w4"
    using run_inv_save_to_database[OF 3, of sb sigs] assms(4) by simp
  have 5: "run_inv j w 86 w5"
    using run_inv_generate_summary[OF 4, of sb sigs] assms(5) by simp
  show ?thesis by (rule run_inv_send_notifications[OF 5])
qed

lemma run_steps_done: "run_done w (snd (run_steps sb fetch scoreOne ev w))"
proof (cases "jobId ev = None \<or> jobId ev = Some []")
  case True
  from run_steps_no_job[OF True] show ?thesis by (simp add: run_done_refl)
next
  case False
  then obtain j where j: "jobId ev = Some j" "j \<noteq> []" by auto
  obtain r1 w1 where i: "initialize_job sb j w = (r1, w1)"
    by (cases "initialize_job sb j w")
  show ?thesis
  proof (cases r1)
    case (Inl e)
    with i have i': "initialize_job sb j w = (Inl e, w1)" by simp
    from run_steps_init_fail[OF j i'] history_initialize_job_fail[OF i']
    show ?thesis by (simp add: run_done_refl)
  next
    case (Inr x)
    with i have i': "initialize_job sb j w = (Inr x, w1)" by simp
    obtain r2 w2 where s: "select_and_fetch_data sb fetch j (topCoins ev) w1 = (r2, w2)"
      by (cases "select_and_fetch_data sb fetch j (topCoins ev) w1")
    show ?thesis
    proof (cases r2)
      case (Inl e)
      with s have s': "select_and_fetch_data sb fetch j (topCoins ev) w1 = (Inl e, w2)" by simp
      have "run_inv j w 43 w2"
        using run_inv_select_and_fetch_data[OF run_inv_initialize_job[OF i'], of sb fetch "topCoins ev"]
        by (simp add: s')
      then show ?thesis
        using run_steps_select_fail[OF j i' s'] by (simp add: run_inv_imp_done)
    next
      case (Inr sm)
      with s have s': "select_and_fetch_data sb fetch j (topCoins ev) w1 = (Inr sm, w2)" by simp
      obtain sigs w3 where g: "generate_ai_signals sb scoreOne j sm w2 = (sigs, w3)"
        by (cases "generate_ai_signals sb scoreOne j sm w2")
      obtain saved w4 where d: "save_to_database sb j sigs w3 = (saved, w4)"
        by (cases "save_to_database sb j sigs w3")
      obtain summ sigs' w5 where u: "generate_summary sb j sigs w4 = (summ, sigs', w5)"
        by (cases "generate_summary sb j sigs w4")
      have "run_done w (complete_job sb j sigs' summ (send_notifications sb j sigs' w5))"
        by (rule run_done_complete_job[OF run_inv_before_complete[OF i' s' g d u]])
      then show ?thesis
        using run_steps_ok[OF j i' s' g d u] by simp
    qed
  qed
qed

lemma written_run:
  "\<exists>pre post. written w (snd (run_steps sb fetch scoreOne ev w)) = pre @ post \<and>
     sorted (map progress_percentage (pre @ post)) \<and>
     (\<forall>r\<in>set pre. status r = ''started'') \<and>
     (\<forall>r\<in>set post. status r = ''completed'') \<and>
     (\<forall>r\<in>set (pre @ post). progress_percentage r \<in> step_values) \<and>
     length post \<le> 2"
proof -
  from run_steps_done[of w sb fetch scoreOne ev] obtain pre post where
    d: "history (snd (run_steps sb fetch scoreOne ev w)) = history w @ pre @ post"
    "sorted (map progress_percentage (pre @ post))"
    "\<forall>r\<in>set pre. status r = ''started''"
    "\<forall>r\<in>set post. status r = ''completed''"
    "\<forall>r\<in>set (pre @ post). progress_percentage r \<in> step_values"
    "length post \<le> 2"
    unfolding run_done_def by blast
  have "written w (snd (run_steps sb fetch scoreOne ev w)) = pre @ post"
    by (simp add: written_def d(1))
  with d(2-6) show ?thesis by blast
qed

lemma workflow_run_steps:
  "snd (signalAnalysisWorkflow sb fetch scoreOne ev w) = snd (run_steps sb fetch scoreOne ev w)"
  "fst (signalAnalysisWorkflow sb fetch scoreOne ev w) =
     (case fst (run_steps sb fetch scoreOne ev w) of
        Inl e \<Rightarrow> Inl e
      | Inr r \<Rightarrow> Inr \<lparr>wf_success = True, wf_jobId = run_jobId r,
                      symbolsAnalyzed = length (run_tradingSignals_final r),
                      wf_summary = run_summary r\<rparr>)"
  by (simp_all add: signalAnalysisWorkflow_def split: prod.splits sum.splits)

lemma run_steps_InrE:
  assumes "fst (run_steps sb fetch scoreOne ev w) = Inr r"
  obtains j x w1 w2 w3 w4 w5 where
    "jobId ev = Some j" "j \<noteq> []"
    "initialize_job sb j w = (Inr x, w1)"
    "select_and_fetch_data sb fetch j (topCoins ev) w1 = (Inr (run_socialMetrics r), w2)"
    "generate_ai_signals sb scoreOne j (run_socialMetrics r) w2 = (run_tradingSignals r, w3)"
    "save_to_database sb j (run_tradingSignals r) w3 = (run_savedSignals r, w4)"
    "generate_summary sb j (run_tradingSignals r) w4 =
       (run_summary r, run_tradingSignals_final r, w5)"
    "snd (run_steps sb fetch scoreOne ev w) =
       complete_job sb j (run_tradingSignals_final r) (run_summary r)
         (send_notifications sb j (run_tradingSignals_final r) w5)"
    "run_jobId r = j"
proof (cases "jobId ev = None \<or> jobId ev = Some []")
  case True
  from run_steps_no_job[OF True, of sb fetch scoreOne w] assms show ?thesis by simp
next
  case False
  then obtain j where j: "jobId ev = Some j" "j \<noteq> []" by auto
  obtain r1 w1 where i: "initialize_job sb j w = (r1, w1)"
    by (cases "initialize_job sb j w")
  show ?thesis
  proof (cases r1)
    case (Inl e)
    with i have i': "initialize_job sb j w = (Inl e, w1)" by simp
    from run_steps_init_fail[OF j i', of fetch scoreOne] assms show ?thesis by simp
  next
    case (Inr x)
    with i have i': "initialize_job sb j w = (Inr x, w1)" by simp
    obtain r2 w2 where s: "select_and_fetch_data sb fetch j (topCoins ev) w1 = (r2, w2)"
      by (cases "select_and_fetch_data sb fetch j (topCoins ev) w1")
    show ?thesis
    proof (cases r2)
      case (Inl e)
      with s have s': "select_and_fetch_data sb fetch j (topCoins ev) w1 = (Inl e, w2)" by simp
      from run_steps_select_fail[OF j i' s', of scoreOne] assms show ?thesis by simp
    next
      case (Inr sm)
      with s have s': "select_and_fetch_data sb fetch j (topCoins ev) w1 = (Inr sm, w2)" by simp
      obtain sigs w3 where g: "generate_ai_signals sb scoreOne j sm w2 = (sigs, w3)"
        by (cases "generate_ai_signals sb scoreOne j sm w2")
      obtain saved w4 where d: "save_to_database sb j sigs w3 = (saved, w4)"
        by (cases "save_to_database sb j sigs w3")
      obtain summ sigs' w5 where u: "generate_summary sb j sigs w4 = (summ, sigs', w5)"
        by (cases "generate_summary sb j sigs w4")
      note ok = run_steps_ok[OF j i' s' g d u]
      from ok assms have r: "r = \<lparr>run_jobId = j, run_socialMetrics = sm, run_tradingSignals = sigs,
           run_savedSignals = saved, run_summary = summ, run_tradingSignals_final = sigs'\<rparr>"
        by simp
      show ?thesis
        by (rule that[OF j i', of w2 w3 w4 w5]) (simp_all add: r s' g d u ok)
    qed
  qed
qed

lemma run_steps_final_row:
  assumes r: "fst (run_steps sb fetch scoreOne ev w) = Inr r"
    and ok: "\<forall>n. updateJob sb n = DbOk"
  shows "\<exists>row. analysis_jobs (snd (run_steps sb fetch scoreOne ev w)) (run_jobId r) =
      Some (final_statistics (length (run_tradingSignals r)) (highConfidence (run_summary r))
             (completed_row (length (run_tradingSignals r)) row))"
proof -
  from r obtain j x w1 w2 w3 w4 w5 where s:
    "initialize_job sb j w = (Inr x, w1)"
    "select_and_fetch_data sb fetch j (topCoins ev) w1 = (Inr (run_socialMetrics r), w2)"
    "generate_ai_signals sb scoreOne j (run_socialMetrics r) w2 = (run_tradingSignals r, w3)"
    "save_to_database sb j (run_tradingSignals r) w3 = (run_savedSignals r, w4)"
    "generate_summary sb j (run_tradingSignals r) w4 =
       (run_summary r, run_tradingSignals_final r, w5)"
    "snd (run_steps sb fetch scoreOne ev w) =
       complete_job sb j (run_tradingSignals_final r) (run_summary r)
         (send_notifications sb j (run_tradingSignals_final r) w5)"
    "run_jobId r = j"
    by (rule run_steps_InrE)
  let ?w6 = "send_notifications sb j (run_tradingSignals_final r) w5"
  from run_inv_before_complete[OF s(1-5)] obtain row where
    row: "analysis_jobs ?w6 j = Some row"
    unfolding run_inv_def by blast
  have "run_tradingSignals_final r = js_sort by_confidence_desc (run_tradingSignals r)"
    using generate_summary_parts(2)[of sb j "run_tradingSignals r" w4] s(5) by simp
  then have len: "length (run_tradingSignals_final r) = length (run_tradingSignals r)"
    by (simp add: js_sort_sort_key)
  from complete_job_cases(2)[OF row, of sb "run_tradingSignals_final r" "run_summary r"] ok
  show ?thesis by (auto simp: s(6,7) len)
qed

lemma run_steps_succeeds:
  assumes j: "jobId ev = Some j" "j \<noteq> []"
    and ins: "insertJob sb = DbOk"
    and tc: "topCoins ev = Some cs" "cs \<noteq> []"
    and found: "take 3 (List.map_filter (complete_item fetch) cs) \<noteq> []"
  shows "\<exists>r. fst (run_steps sb fetch scoreOne ev w) = Inr r \<and> run_jobId r = j \<and>
     run_socialMetrics r = take 3 (List.map_filter (complete_item fetch) cs) \<and>
     run_tradingSignals r =
       concat (map (score_item scoreOne) (filter success (run_socialMetrics r))) \<and>
     run_savedSignals r = save_flags sb 0 (run_tradingSignals r) \<and>
     run_summary r = fst (summarize (run_tradingSignals r)) \<and>
     run_tradingSignals_final r = js_sort by_confidence_desc (run_tradingSignals r)"
proof -
  define sm where "sm = take 3 (List.map_filter (complete_item fetch) cs)"
  from initialize_job_ok[OF ins, of j w] obtain w1 where
    i: "initialize_job sb j w = (Inr j, w1)" by blast
  from select_step_scan[OF tc(2), of sb fetch j w1] found
  have "fst (select_and_fetch_data sb fetch j (Some cs) w1) = Inr sm"
    unfolding sm_def by auto
  then obtain w2 where s: "select_and_fetch_data sb fetch j (topCoins ev) w1 = (Inr sm, w2)"
    unfolding tc(1) by (cases "select_and_fetch_data sb fetch j (Some cs) w1") simp
  obtain sigs w3 where g: "generate_ai_signals sb scoreOne j sm w2 = (sigs, w3)"
    by (cases "generate_ai_signals sb scoreOne j sm w2")
  obtain saved w4 where d: "save_to_database sb j sigs w3 = (saved, w4)"
    by (cases "save_to_database sb j sigs w3")
  obtain summ sigs' w5 where u: "generate_summary sb j sigs w4 = (summ, sigs', w5)"
    by (cases "generate_summary sb j sigs w4")
  have g': "sigs = concat (map (score_item scoreOne) (filter success sm))"
    using generate_ai_signals_fst[of sb scoreOne j sm w2] g by simp
  have d': "saved = save_flags sb 0 sigs"
    using save_to_database_fst[of sb j sigs w3] d by simp
  have u': "summ = fst (summarize sigs)" "sigs' = js_sort by_confidence_desc sigs"
    using generate_summary_parts[of sb j sigs w4] u by simp_all
  from run_steps_ok[OF j i s g d u] g' d' u' show ?thesis
    by (simp add: sm_def)
qed

subsection \<open>The progress a step leaves in the job row\<close>

lemma row_progress_console [simp]: "row_progress j (w\<lparr>console := c\<rparr>) = row_progress j w"
  by (simp add: row_progress_def)

lemma row_progress_trading_signals [simp]:
  "row_progress j (w\<lparr>trading_signals := c\<rparr>) = row_progress j w"
  by (simp add: row_progress_def)

lemma row_progress_initialize_job:
  "initialize_job sb j w = (Inr x, w1) \<Longrightarrow> row_progress j w1 = Some 14"
  by (simp add: row_progress_def initialize_job_row)

lemma row_progress_updateProgress:
  assumes "\<forall>n. updateJob sb n = DbOk" "row_progress j w \<noteq> None"
  shows "row_progress j (updateProgress sb j k n m s w) = Some (progressPercentage k)"
proof -
  from assms(2) obtain r where r: "analysis_jobs w j = Some r"
    by (auto simp: row_progress_def)
  from assms(1) have "updateJob sb (updates w) = DbOk" by simp
  from updateProgress_row[OF this r, of k n m s] show ?thesis
    by (simp add: row_progress_def)
qed

lemma row_progress_select_loop:
  assumes ok: "\<forall>n. updateJob sb n = DbOk"
  shows "row_progress j w = Some 29 \<Longrightarrow>
     row_progress j (snd (select_loop sb fetch j cs results w)) = Some 29"
proof (induction cs arbitrary: results w)
  case Nil
  then show ?case by simp
next
  case (Cons coin cs)
  have u: "row_progress j (updateProgress sb j 2 n m ''started'' w) = Some 29" for n m
    using row_progress_updateProgress[OF ok, of j w 2 n m] Cons.prems
    by (simp add: progress_values)
  show ?case
    using Cons.prems u by (auto simp: Let_def split: sum.splits intro!: Cons.IH)
qed

lemma row_progress_select_and_fetch_data:
  assumes ok: "\<forall>n. updateJob sb n = DbOk"
    and row: "row_progress j w \<noteq> None"
    and s: "select_and_fetch_data sb fetch j tc w = (Inr sm, w2)"
  shows "row_progress j w2 = Some 43"
proof -
  define w1 where "w1 = updateProgress sb j 2 ''Selecting Best Coins''
      ''Testing top 10 candidates for complete social data...'' ''started'' w"
  define cs where "cs = (case tc of None \<Rightarrow> [] | Some cs \<Rightarrow> cs)"
  have r1: "row_progress j w1 = Some 29"
    unfolding w1_def using row_progress_updateProgress[OF ok row, of 2]
    by (simp add: progress_values)
  obtain results wl where l: "select_loop sb fetch j cs [] w1 = (results, wl)"
    by (cases "select_loop sb fetch j cs [] w1")
  have rl: "row_progress j wl = Some 29"
    using row_progress_select_loop[OF ok r1, of fetch cs "[]"] l by simp
  from s obtain n m where "w2 = updateProgress sb j 3 n m ''started'' wl"
    unfolding select_and_fetch_data_def Let_def w1_def[symmetric] cs_def[symmetric]
    by (auto simp: l split: if_splits)
  then show ?thesis
    using row_progress_updateProgress[OF ok, of j wl 3] rl by (simp add: progress_values)
qed

lemma row_progress_generate_ai_signals:
  assumes ok: "\<forall>n. updateJob sb n = DbOk" and row: "row_progress j w \<noteq> None"
  shows "row_progress j (snd (generate_ai_signals sb scoreOne j items w)) = Some 57"
proof -
  have u: "row_progress j (updateProgress sb j 4 n m ''started'' w) \<noteq> None" for n m
    using row_progress_updateProgress[OF ok row, of 4 n m] by simp
  show ?thesis
    using row_progress_updateProgress[OF ok u, of 4]
    by (simp add: generate_ai_signals_def Let_def progress_values)
qed

lemma row_progress_save_loop:
  assumes ok: "\<forall>n. updateJob sb n = DbOk"
  shows "row_progress j w = Some 71 \<Longrightarrow>
     row_progress j (snd (save_loop sb j c i sigs res w)) = Some 71"
proof (induction sigs arbitrary: i res w)
  case Nil
  then show ?case by simp
next
  case (Cons sg sigs)
  have "row_progress j (w\<lparr>trading_signals := trading_signals w @ [sg]\<rparr>) \<noteq> None"
    using Cons.prems by simp
  from row_progress_updateProgress[OF ok this, of 5]
  have u: "row_progress j (updateProgress sb j 5 n m ''started''
      (w\<lparr>trading_signals := trading_signals w @ [sg]\<rparr>)) = Some 71" for n m
    by (simp add: progress_values)
  show ?case
    using Cons.prems u by (auto split: db_outcome.splits intro!: Cons.IH)
qed

lemma row_progress_save_to_database:
  assumes ok: "\<forall>n. updateJob sb n = DbOk" and row: "row_progress j w \<noteq> None"
  shows "row_progress j (snd (save_to_database sb j sigs w)) = Some 71"
proof -
  have u: "row_progress j (updateProgress sb j 5 n m ''started'' w) = Some 71" for n m
    using row_progress_updateProgress[OF ok row, of 5 n m] by (simp add: progress_values)
  show ?thesis
    by (simp add: save_to_database_def Let_def row_progress_save_loop[OF ok u])
qed

lemma row_progress_generate_summary:
  assumes ok: "\<forall>n. updateJob sb n = DbOk" and row: "row_progress j w \<noteq> None"
  shows "row_progress j (snd (snd (generate_summary sb j sigs w))) = Some 86"
  using row_progress_updateProgress[OF ok row, of 6]
  by (simp add: generate_summary_def Let_def case_prod_beta progress_values)

lemma row_progress_send_notifications:
  assumes ok: "\<forall>n. updateJob sb n = DbOk" and row: "row_progress j w = Some 86"
  shows "row_progress j (send_notifications sb j sigs w) = Some 86"
proof -
  from row have "row_progress j w \<noteq> None" by simp
  from row_progress_updateProgress[OF ok this, of 6] row show ?thesis
    by (simp add: send_notifications_def Let_def progress_values)
qed

lemma row_progress_complete_job:
  assumes ok: "\<forall>n. updateJob sb n = DbOk" and row: "row_progress j w \<noteq> None"
  shows "row_progress j (complete_job sb j sigs sm w) = Some 100"
proof -
  from row obtain r where r: "analysis_jobs w j = Some r"
    by (auto simp: row_progress_def)
  from ok have "updateJob sb (updates w) = DbOk" "updateJob sb (Suc (updates w)) = DbOk"
    by simp_all
  from complete_job_cases(2)[OF r this, of sigs sm] show ?thesis
    by (simp add: row_progress_def row_status_parts)
qed

text \<open>
  The states between the steps of a run that returns, in a store that accepts the
  updates of the job row, and the progress each step leaves in the row.
\<close>

lemma run_steps_progress:
  assumes run: "fst (run_steps sb fetch scoreOne ev w) = Inr r"
    and ok: "\<forall>n. updateJob sb n = DbOk"
  shows "\<exists>w1 w2 w3 w4 w5 w6 w7.
     initialize_job sb (run_jobId r) w = (Inr (run_jobId r), w1) \<and>
     row_progress (run_jobId r) w1 = Some 14 \<and>
     select_and_fetch_data sb fetch (run_jobId r) (topCoins ev) w1 =
       (Inr (run_socialMetrics r), w2) \<and>
     row_progress (run_jobId r) w2 = Some 43 \<and>
     generate_ai_signals sb scoreOne (run_jobId r) (run_socialMetrics r) w2 =
       (run_tradingSignals r, w3) \<and>
     row_progress (run_jobId r) w3 = Some 57 \<and>
     save_to_database sb (run_jobId r) (run_tradingSignals r) w3 = (run_savedSignals r, w4) \<and>
     row_progress (run_jobId r) w4 = Some 71 \<and>
     generate_summary sb (run_jobId r) (run_tradingSignals r) w4 =
       (run_summary r, run_tradingSignals_final r, w5) \<and>
     row_progress (run_jobId r) w5 = Some 86 \<and>
     send_notifications sb (run_jobId r) (run_tradingSignals_final r) w5 = w6 \<and>
     row_progress (run_jobId r) w6 = Some 86 \<and>
     complete_job sb (run_jobId r) (run_tradingSignals_final r) (run_summary r) w6 = w7 \<and>
     row_progress (run_jobId r) w7 = Some 100 \<and>
     snd (run_steps sb fetch scoreOne ev w) = w7"
proof -
  from run obtain j x w1 w2 w3 w4 w5 where s:
    "initialize_job sb j w = (Inr x, w1)"
    "select_and_fetch_data sb fetch j (topCoins ev) w1 = (Inr (run_socialMetrics r), w2)"
    "generate_ai_signals sb scoreOne j (run_socialMetrics r) w2 = (run_tradingSignals r, w3)"
    "save_to_database sb j (run_tradingSignals r) w3 = (run_savedSignals r, w4)"
    "generate_summary sb j (run_tradingSignals r) w4 =
       (run_summary r, run_tradingSignals_final r, w5)"
    "snd (run_steps sb fetch scoreOne ev w) =
       complete_job sb j (run_tradingSignals_final r) (run_summary r)
         (send_notifications sb j (run_tradingSignals_final r) w5)"
    "run_jobId r = j"
    by (rule run_steps_InrE)
  define w6 where "w6 = send_notifications sb j (run_tradingSignals_final r) w5"
  define w7 where "w7 = complete_job sb j (run_tradingSignals_final r) (run_summary r) w6"
  have x: "x = j" using s(1) by (auto simp: initialize_job_def Let_def split: db_outcome.splits)
  have p1: "row_progress j w1 = Some 14" by (rule row_progress_initialize_job[OF s(1)])
  then have n1: "row_progress j w1 \<noteq> None" by simp
  have p2: "row_progress j w2 = Some 43"
    by (rule row_progress_select_and_fetch_data[OF ok n1 s(2)])
  then have n2: "row_progress j w2 \<noteq> None" by simp
  have p3: "row_progress j w3 = Some 57"
    using row_progress_generate_ai_signals[OF ok n2, of scoreOne "run_socialMetrics r"] s(3)
    by simp
  then have n3: "row_progress j w3 \<noteq> None" by simp
  have p4: "row_progress j w4 = Some 71"
    using row_progress_save_to_database[OF ok n3, of "run_tradingSignals r"] s(4) by simp
  then have n4: "row_progress j w4 \<noteq> None" by simp
  have p5: "row_progress j w5 = Some 86"
    using row_progress_generate_summary[OF ok n4, of "run_tradingSignals r"] s(5) by simp
  have p6: "row_progress j w6 = Some 86"
    unfolding w6_def by (rule row_progress_send_notifications[OF ok p5])
  then have n6: "row_progress j w6 \<noteq> None" by simp
  have p7: "row_progress j w7 = Some 100"
    unfolding w7_def by (rule row_progress_complete_job[OF ok n6])
  have e: "snd (run_steps sb fetch scoreOne ev w) = w7"
    unfolding w7_def w6_def by (rule s(6))
  show ?thesis
    unfolding s(7)
    by (intro exI[of _ w1] exI[of _ w2] exI[of _ w3] exI[of _ w4] exI[of _ w5] exI[of _ w6]
        exI[of _ w7] conjI s(1)[unfolded x] p1 s(2) p2 s(3) p3 s(4) p4 s(5) p5
        w6_def[symmetric] p6 w7_def[symmetric] p7 e)
qed

subsection \<open>The concrete inputs\<close>

lemma flaky_fetch_BTC:
  "flaky_fetch (demo_coin ''BTC'') =
     Inr \<lparr>m_symbol = ''BTC'', mentions = 10, interactions = 5000, creators = 2000,
          altRank = 5, galaxyScore = 65\<rparr>"
  by (simp add: flaky_fetch_def demo_coin_def getSocialMetrics_def fetchTopicData_def
      demo_request_def topic_endpoint_def or_zero_def)



lemma positiveSignals_demo: "positiveSignals demo_metrics = 3"
  by (simp add: positiveSignals_indicators positive_indicators_def high_engagement_def
      demo_metrics_def)

lemma engagementRatio_demo: "engagementRatio demo_metrics = 500"
  by code_simp

lemma engagementRatio_rounded: "engagementRatio rounded_metrics = 100"
  by code_simp

lemma fallback_rounded:
  "100 * max (mentions rounded_metrics) 1 < interactions rounded_metrics"
  "\<not> high_engagement rounded_metrics"
  "positive_indicators rounded_metrics = 2"
  "signal (createFallbackSignal ''ETH'' rounded_metrics) = HOLD"
  "confidence (createFallbackSignal ''ETH'' rounded_metrics) = 50"
  by (simp_all add: createFallbackSignal_def Let_def positiveSignals_indicators
      positive_indicators_def high_engagement_def rounded_metrics_def)

lemma demo_initialized_row:
  "initialize_job all_ok ''job_1'' fresh_db = (Inr ''job_1'', demo_initialized)"
  "analysis_jobs demo_initialized ''job_1'' = Some demo_job_row"
  "updateJob all_ok (updates demo_initialized) = DbOk"
  by (simp_all add: demo_initialized_def initialize_job_def all_ok_def fresh_db_def Let_def
      demo_job_row_def)

lemma demo_found:
  "take 3 (List.map_filter (complete_item (getSocialMetrics demo_request))
     [demo_coin ''BTC'', demo_coin ''NONE'', demo_coin ''ETH'', demo_coin ''SOL'',
      demo_coin ''XRP'']) =
   [demo_selected ''BTC'', demo_selected ''ETH'', demo_selected ''SOL'']"
  by (simp add: List.map_filter_simps complete_item_def demo_coin_def getSocialMetrics_def
      fetchTopicData_def demo_request_def topic_endpoint_def or_zero_def has_real_data_def
      demo_selected_def)

lemma demo_scored:
  "length (concat (map (score_item (generateTradingSignal demo_gemini))
     (filter success [demo_selected ''BTC'', demo_selected ''ETH'', demo_selected ''SOL'']))) = 3"
  by (simp add: score_item_def demo_selected_def generateTradingSignal_def split: sum.splits)

lemma save_flags_second_fails:
  "map sr_success (save_flags second_write_fails 0 [a, b, c]) = [True, False, True]"
  by (simp add: second_write_fails_def)

lemma updates_second_write_fails: "\<forall>n. updateJob second_write_fails n = DbOk"
  by (simp add: second_write_fails_def)

lemma demo_partial_run_result:
  "\<exists>r. fst demo_partial_run = Inr r \<and> run_jobId r = ''job_1'' \<and>
     length (run_tradingSignals r) = 3 \<and>
     map sr_success (run_savedSignals r) = [True, False, True]"
proof -
  let ?cs = "[demo_coin ''BTC'', demo_coin ''NONE'', demo_coin ''ETH'', demo_coin ''SOL'',
      demo_coin ''XRP'']"
  have h: "jobId demo_event = Some ''job_1''" "''job_1'' \<noteq> []"
    "insertJob second_write_fails = DbOk" "topCoins demo_event = Some ?cs" "?cs \<noteq> []"
    by (simp_all add: demo_event_def second_write_fails_def)
  have f: "take 3 (List.map_filter (complete_item (getSocialMetrics demo_request)) ?cs) \<noteq> []"
    by (simp only: demo_found) simp
  from run_steps_succeeds[OF h f, of "generateTradingSignal demo_gemini" fresh_db]
  obtain r where r: "fst demo_partial_run = Inr r" "run_jobId r = ''job_1''"
    "run_socialMetrics r =
       take 3 (List.map_filter (complete_item (getSocialMetrics demo_request)) ?cs)"
    "run_tradingSignals r =
       concat (map (score_item (generateTradingSignal demo_gemini))
         (filter success (run_socialMetrics r)))"
    "run_savedSignals r = save_flags second_write_fails 0 (run_tradingSignals r)"
    unfolding demo_partial_run_def by blast
  have l: "length (run_tradingSignals r) = 3"
    by (simp only: r(4) r(3) demo_found demo_scored)
  then obtain a b c where "run_tradingSignals r = [a, b, c]"
    by (auto simp: length_Suc_conv numeral_3_eq_3)
  then have "map sr_success (run_savedSignals r) = [True, False, True]"
    by (simp only: r(5) save_flags_second_fails)
  with r(1,2) l show ?thesis by (intro exI[of _ r]) simp
qed

lemma demo_partial_run_row:
  "\<exists>row. analysis_jobs (snd demo_partial_run) ''job_1'' = Some row \<and>
     status row = ''completed'' \<and> signals_generated row = Some 3"
proof -
  from demo_partial_run_result obtain r where r: "fst demo_partial_run = Inr r"
    "run_jobId r = ''job_1''" "length (run_tradingSignals r) = 3"
    by (elim exE conjE)
  from run_steps_final_row[OF r(1)[unfolded demo_partial_run_def] updates_second_write_fails]
  obtain row where "analysis_jobs (snd demo_partial_run) ''job_1'' =
      Some (final_statistics 3 (highConfidence (run_summary r)) (completed_row 3 row))"
    unfolding demo_partial_run_def[symmetric] r(2,3) by (elim exE)
  then show ?thesis
    by (intro exI[of _ "final_statistics 3 (highConfidence (run_summary r)) (completed_row 3 row)"])
       (simp add: row_status_parts)
qed

lemma demo_select_result:
  "fst (select_and_fetch_data sb (getSocialMetrics demo_request) j (topCoins demo_event) w) =
     Inr [demo_selected ''BTC'', demo_selected ''ETH'', demo_selected ''SOL'']"
proof -
  let ?cs = "[demo_coin ''BTC'', demo_coin ''NONE'', demo_coin ''ETH'', demo_coin ''SOL'',
      demo_coin ''XRP'']"
  have ne: "?cs \<noteq> []" by simp
  from select_step_scan[OF ne, of sb "getSocialMetrics demo_request" j w]
  have "fst (select_and_fetch_data sb (getSocialMetrics demo_request) j (Some ?cs) w) =
      (if take 3 (List.map_filter (complete_item (getSocialMetrics demo_request)) ?cs) = []
       then Inl (Error ''No coins with complete social data found in top 10'')
       else Inr (take 3 (List.map_filter (complete_item (getSocialMetrics demo_request)) ?cs)))"
    by (elim exE conjE)
  then show ?thesis by (simp only: demo_found demo_event_def event_data.simps) simp
qed

lemma updates_all_ok: "\<forall>n. updateJob all_ok n = DbOk"
  by (simp add: all_ok_def)

lemma demo_run_result:
  "\<exists>r. fst (run_steps all_ok (getSocialMetrics demo_request) (generateTradingSignal demo_gemini)
          demo_event fresh_db) = Inr r \<and> run_jobId r = ''job_1''"
proof -
  let ?cs = "[demo_coin ''BTC'', demo_coin ''NONE'', demo_coin ''ETH'', demo_coin ''SOL'',
      demo_coin ''XRP'']"
  have h: "jobId demo_event = Some ''job_1''" "''job_1'' \<noteq> []"
    "insertJob all_ok = DbOk" "topCoins demo_event = Some ?cs" "?cs \<noteq> []"
    by (simp_all add: demo_event_def all_ok_def)
  have f: "take 3 (List.map_filter (complete_item (getSocialMetrics demo_request)) ?cs) \<noteq> []"
    by (simp only: demo_found) simp
  from run_steps_succeeds[OF h f, of "generateTradingSignal demo_gemini" fresh_db]
  obtain r where "fst (run_steps all_ok (getSocialMetrics demo_request)
      (generateTradingSignal demo_gemini) demo_event fresh_db) = Inr r" "run_jobId r = ''job_1''"
    by (elim exE conjE)
  then show ?thesis by (intro exI[of _ r] conjI)
qed

section \<open>The claims\<close>

subsection \<open>C1: a failed write of a signal\<close>

text \<open>
  Claim C1, as amended. In a run with three scored results in which the insert into
  \<^verbatim>\<open>trading_signals\<close> fails for exactly the second one (and the store accepts the
  updates of the job row), the step \<^verbatim>\<open>save-to-database\<close> returns the flags
  \<open>[True, False, True]\<close>, the job row ends with status \<^verbatim>\<open>completed\<close>, and its field
  \<^verbatim>\<open>signals_generated\<close> is 3: \<^verbatim>\<open>complete-job\<close> writes \<^verbatim>\<open>tradingSignals.length\<close>,
  the number of signals generated, whether or not they were saved.
\<close>

theorem signals_generated_counts_scored:
  assumes run: "fst (run_steps sb fetch scoreOne ev w) = Inr r"
    and three: "length (run_tradingSignals r) = 3"
    and first: "insertSignal sb 0 (run_tradingSignals r ! 0) = DbOk"
    and second: "insertSignal sb 1 (run_tradingSignals r ! 1) \<noteq> DbOk"
    and third: "insertSignal sb 2 (run_tradingSignals r ! 2) = DbOk"
    and upd: "\<forall>n. updateJob sb n = DbOk"
  shows "map sr_success (run_savedSignals r) = [True, False, True] \<and>
         (\<exists>row. analysis_jobs (snd (run_steps sb fetch scoreOne ev w)) (run_jobId r) = Some row \<and>
            status row = ''completed'' \<and> signals_generated row = Some 3)"
proof -
  from run obtain j x w1 w2 w3 w4 w5 where
    s: "save_to_database sb j (run_tradingSignals r) w3 = (run_savedSignals r, w4)"
    by (rule run_steps_InrE)
  from three obtain a b c where abc: "run_tradingSignals r = [a, b, c]"
    by (auto simp: length_Suc_conv numeral_3_eq_3)
  have "run_savedSignals r = save_flags sb 0 (run_tradingSignals r)"
    using save_to_database_fst[of sb j "run_tradingSignals r" w3] s by simp
  then have flags: "map sr_success (run_savedSignals r) = [True, False, True]"
    using first second third by (simp add: abc numeral_2_eq_2)
  from run_steps_final_row[OF run upd] obtain row where
    "analysis_jobs (snd (run_steps sb fetch scoreOne ev w)) (run_jobId r) =
      Some (final_statistics 3 (highConfidence (run_summary r)) (completed_row 3 row))"
    unfolding three by (elim exE)
  then have "\<exists>row. analysis_jobs (snd (run_steps sb fetch scoreOne ev w)) (run_jobId r) = Some row \<and>
            status row = ''completed'' \<and> signals_generated row = Some 3"
    by (intro exI[of _ "final_statistics 3 (highConfidence (run_summary r)) (completed_row 3 row)"])
       (simp add: row_status_parts)
  with flags show ?thesis by (rule conjI)
qed

text \<open>
  The run of five candidates, three of them selected and scored, in a store that
  rejects the second signal.
\<close>

theorem signals_generated_counts_scored_witness:
  "fst demo_partial_run = Inr (projr (fst demo_partial_run)) \<and>
   length (run_tradingSignals (projr (fst demo_partial_run))) = 3 \<and>
   insertSignal second_write_fails 0 (run_tradingSignals (projr (fst demo_partial_run)) ! 0) = DbOk \<and>
   insertSignal second_write_fails 1 (run_tradingSignals (projr (fst demo_partial_run)) ! 1) \<noteq> DbOk \<and>
   insertSignal second_write_fails 2 (run_tradingSignals (projr (fst demo_partial_run)) ! 2) = DbOk \<and>
   (\<forall>n. updateJob second_write_fails n = DbOk) \<and>
   map sr_success (run_savedSignals (projr (fst demo_partial_run))) = [True, False, True] \<and>
   (\<exists>row. analysis_jobs (snd demo_partial_run) (run_jobId (projr (fst demo_partial_run))) = Some row \<and>
      status row = ''completed'' \<and> signals_generated row = Some 3)"
proof -
  let ?r = "projr (fst demo_partial_run)"
  from demo_partial_run_result obtain r where "fst demo_partial_run = Inr r"
    "length (run_tradingSignals r) = 3"
    by (elim exE conjE)
  then have h1: "fst demo_partial_run = Inr ?r" and h2: "length (run_tradingSignals ?r) = 3"
    by simp_all
  have h3: "insertSignal second_write_fails 0 (run_tradingSignals ?r ! 0) = DbOk"
    and h4: "insertSignal second_write_fails 1 (run_tradingSignals ?r ! 1) \<noteq> DbOk"
    and h5: "insertSignal second_write_fails 2 (run_tradingSignals ?r ! 2) = DbOk"
    by (simp_all add: second_write_fails_def)
  note h6 = updates_second_write_fails
  note t = signals_generated_counts_scored[of second_write_fails "getSocialMetrics demo_request"
      "generateTradingSignal demo_gemini" demo_event fresh_db ?r, folded demo_partial_run_def]
  from t[OF h1 h2 h3 h4 h5 h6] h1 h2 h3 h4 h5 h6 show ?thesis by (intro conjI) simp_all
qed

text \<open>
  The claim as stated has \<^verbatim>\<open>signals_generated = 2\<close>, the number of signals saved. In
  that run the flags are \<open>[True, False, True]\<close> and the row is completed, with
  \<^verbatim>\<open>signals_generated = 3\<close>.
\<close>

theorem signals_generated_counterexample:
  "fst demo_partial_run = Inr (projr (fst demo_partial_run)) \<and>
   length (run_tradingSignals (projr (fst demo_partial_run))) = 3 \<and>
   map sr_success (run_savedSignals (projr (fst demo_partial_run))) = [True, False, True] \<and>
   map_option status (analysis_jobs (snd demo_partial_run) ''job_1'') = Some ''completed'' \<and>
   map_option signals_generated (analysis_jobs (snd demo_partial_run) ''job_1'') = Some (Some 3) \<and>
   map_option signals_generated (analysis_jobs (snd demo_partial_run) ''job_1'') \<noteq> Some (Some 2)"
proof -
  from demo_partial_run_result obtain r where r: "fst demo_partial_run = Inr r"
    "length (run_tradingSignals r) = 3"
    "map sr_success (run_savedSignals r) = [True, False, True]"
    by (elim exE conjE)
  from demo_partial_run_row obtain row where
    row: "analysis_jobs (snd demo_partial_run) ''job_1'' = Some row"
    "status row = ''completed''" "signals_generated row = Some 3"
    by (elim exE conjE)
  from r row show ?thesis by simp
qed

subsection \<open>C2: the selection returns one to three complete items\<close>

text \<open>
  Claim C2. For every non-empty candidate list and every fetch capability such that at
  least one candidate's fetched metrics has a strictly positive counter (mentions,
  interactions or creators), the step \<^verbatim>\<open>select-and-fetch-data\<close> returns a non-empty
  list of at most three selected items. The list holds the first three complete
  candidates in input order. The candidates tested are a prefix \<open>tested\<close> of the
  input, one console line each: when a candidate was tested, fewer than three complete
  items had been found, and candidates are left untested only when three were found.
\<close>

theorem select_returns_one_to_three:
  assumes ne: "candidates \<noteq> []"
    and ex: "\<exists>c\<in>set candidates. \<exists>m. fetch c = Inr m \<and>
               (mentions m > 0 \<or> interactions m > 0 \<or> creators m > 0)"
  shows "\<exists>results tested rest.
     fst (select_and_fetch_data sb fetch jobId' (Some candidates) w) = Inr results \<and>
     results \<noteq> [] \<and> length results \<le> 3 \<and>
     results = take 3 (List.map_filter (complete_item fetch) candidates) \<and>
     candidates = tested @ rest \<and>
     console (snd (select_and_fetch_data sb fetch jobId' (Some candidates) w)) =
       console w @ map (verdict fetch) tested \<and>
     results = List.map_filter (complete_item fetch) tested \<and>
     (rest \<noteq> [] \<longrightarrow> length results = 3) \<and>
     length (List.map_filter (complete_item fetch) (butlast tested)) < 3"
proof -
  define results where "results = take 3 (List.map_filter (complete_item fetch) candidates)"
  from ex have "\<exists>c\<in>set candidates. complete_item fetch c \<noteq> None"
    using complete_item_Some_iff[of fetch] by blast
  then have rne: "results \<noteq> []"
    by (simp add: results_def take3_eq_Nil_iff map_filter_eq_Nil_iff)
  have le: "length results \<le> 3" by (simp add: results_def)
  from select_step_scan[OF ne, of sb fetch jobId' w] obtain tested rest where
    t: "candidates = tested @ rest"
    "console (snd (select_and_fetch_data sb fetch jobId' (Some candidates) w)) =
       console w @ map (verdict fetch) tested"
    "List.map_filter (complete_item fetch) tested = results"
    "rest \<noteq> [] \<longrightarrow> length (List.map_filter (complete_item fetch) tested) = 3"
    "length (List.map_filter (complete_item fetch) (butlast tested)) < 3"
    "fst (select_and_fetch_data sb fetch jobId' (Some candidates) w) =
       (if results = [] then Inl (Error ''No coins with complete social data found in top 10'')
        else Inr results)"
    unfolding results_def by blast
  from t(6) rne have r: "fst (select_and_fetch_data sb fetch jobId' (Some candidates) w) = Inr results"
    by simp
  from r rne le t(1,2,3,4,5) show ?thesis
    unfolding results_def by (intro exI[of _ results] exI[of _ tested] exI[of _ rest]) (simp add: results_def)
qed

text \<open>
  The hypotheses hold for six candidates of which one fetch throws, one returns zeros
  and four return data.
\<close>

theorem select_returns_one_to_three_witness:
  "demo_candidates \<noteq> [] \<and>
   (\<exists>c\<in>set demo_candidates. \<exists>m. flaky_fetch c = Inr m \<and>
      (mentions m > 0 \<or> interactions m > 0 \<or> creators m > 0)) \<and>
   (\<exists>results tested rest.
     fst (select_and_fetch_data all_ok flaky_fetch ''job_1'' (Some demo_candidates) fresh_db) = Inr results \<and>
     results \<noteq> [] \<and> length results \<le> 3 \<and>
     results = take 3 (List.map_filter (complete_item flaky_fetch) demo_candidates) \<and>
     demo_candidates = tested @ rest \<and>
     console (snd (select_and_fetch_data all_ok flaky_fetch ''job_1'' (Some demo_candidates) fresh_db)) =
       console fresh_db @ map (verdict flaky_fetch) tested \<and>
     results = List.map_filter (complete_item flaky_fetch) tested \<and>
     (rest \<noteq> [] \<longrightarrow> length results = 3) \<and>
     length (List.map_filter (complete_item flaky_fetch) (butlast tested)) < 3)"
proof -
  have h1: "demo_candidates \<noteq> []" by (simp add: demo_candidates_def)
  have h2: "\<exists>c\<in>set demo_candidates. \<exists>m. flaky_fetch c = Inr m \<and>
      (mentions m > 0 \<or> interactions m > 0 \<or> creators m > 0)"
    by (rule bexI[of _ "demo_coin ''BTC''"]) (simp_all add: flaky_fetch_BTC demo_candidates_def)
  from select_returns_one_to_three[OF h1 h2, of all_ok "''job_1''" fresh_db] h1 h2 show ?thesis by blast
qed

subsection \<open>C3: no complete candidate\<close>




subsection \<open>C4: the scorer fan-out drops exactly the failed items\<close>

text \<open>
  Claim C4. For every list of \<open>N\<close> selected items (the selection marks each of its
  items \<open>success\<close>, lemma \<open>selected_success\<close>) where the scoring capability fails for
  exactly \<open>K\<close> of them, the step \<^verbatim>\<open>generate-ai-signals\<close> returns exactly \<open>N - K\<close>
  signals. The step has no failing outcome: each rejection is caught on its own
  promise. Every item contributes its own signal or nothing, whatever the other items
  do: the result is the concatenation, in input order, of the contributions of the
  single items.
\<close>

theorem scorer_fan_out_isolates_failures:
  assumes sel: "\<forall>r\<in>set items. success r"
    and n: "length items = N"
    and k: "length (filter (score_fails scoreOne) items) = K"
  shows "length (fst (generate_ai_signals sb scoreOne jobId' items w)) = N - K \<and>
         fst (generate_ai_signals sb scoreOne jobId' items w) =
           concat (map (score_item scoreOne) items)"
proof -
  from sel have f: "filter success items = items" by simp
  have r: "fst (generate_ai_signals sb scoreOne jobId' items w) =
      concat (map (score_item scoreOne) items)"
    by (simp add: generate_ai_signals_fst f)
  from length_score_items[of scoreOne items] n k
  have "length (concat (map (score_item scoreOne) items)) = N - K" by simp
  with r show ?thesis by simp
qed

text \<open>Three selected items, the scoring of the second one rejected: two signals.\<close>

theorem scorer_fan_out_isolates_failures_witness:
  "map success [demo_selected ''BTC'', demo_selected ''ETH'', demo_selected ''SOL''] =
     [True, True, True] \<and>
   length [demo_selected ''BTC'', demo_selected ''ETH'', demo_selected ''SOL''] = 3 \<and>
   length (filter (score_fails failing_score)
     [demo_selected ''BTC'', demo_selected ''ETH'', demo_selected ''SOL'']) = 1 \<and>
   length (fst (generate_ai_signals all_ok failing_score ''job_1''
     [demo_selected ''BTC'', demo_selected ''ETH'', demo_selected ''SOL''] fresh_db)) = 3 - 1 \<and>
   fst (generate_ai_signals all_ok failing_score ''job_1''
     [demo_selected ''BTC'', demo_selected ''ETH'', demo_selected ''SOL''] fresh_db) =
     concat (map (score_item failing_score)
       [demo_selected ''BTC'', demo_selected ''ETH'', demo_selected ''SOL''])"
proof -
  let ?items = "[demo_selected ''BTC'', demo_selected ''ETH'', demo_selected ''SOL'']"
  have h0: "map success ?items = [True, True, True]" by (simp add: demo_selected_def)
  have h1: "\<forall>r\<in>set ?items. success r" by (simp add: demo_selected_def)
  have h2: "length ?items = 3" by simp
  have h3: "length (filter (score_fails failing_score) ?items) = 1"
    by (simp add: score_fails_def failing_score_def demo_selected_def generateTradingSignal_def
        split: sum.splits)
  note t = scorer_fan_out_isolates_failures[OF h1 h2 h3, of all_ok "''job_1''" fresh_db]
  show ?thesis
    by (intro conjI h0 h2 h3 conjunct1[OF t] conjunct2[OF t])
qed

subsection \<open>C5: the summary and its top three\<close>

text \<open>
  Claim C5. \<open>summarize\<close> of the empty list returns a summary with all counts zero and
  an empty top list. On results with confidences 90, 40, 70, 95 the top list has the
  confidences 95, 90, 70. In general the top list is taken from the first three
  results after \<^verbatim>\<open>sort\<close>, which orders them by confidence descending and keeps
  results of equal confidence in their original order.
\<close>

theorem summarize_top_three:
  "fst (summarize []) =
     \<lparr>totalAnalyzed = 0, highConfidence = 0,
      distribution = \<lparr>dist_BUY = 0, dist_SELL = 0, dist_HOLD = 0\<rparr>, topSignals = []\<rparr> \<and>
   (map confidence xs = [90, 40, 70, 95] \<longrightarrow>
      map ts_confidence (topSignals (fst (summarize xs))) = [95, 90, 70]) \<and>
   topSignals (fst (summarize ys)) = map top_of (take 3 (js_sort by_confidence_desc ys)) \<and>
   sorted_wrt (\<lambda>a b. confidence a \<ge> confidence b) (js_sort by_confidence_desc ys) \<and>
   filter (\<lambda>s. confidence s = c) (js_sort by_confidence_desc ys) =
     filter (\<lambda>s. confidence s = c) ys"
proof (intro conjI impI)
  show "fst (summarize []) =
     \<lparr>totalAnalyzed = 0, highConfidence = 0,
      distribution = \<lparr>dist_BUY = 0, dist_SELL = 0, dist_HOLD = 0\<rparr>, topSignals = []\<rparr>"
    by (simp add: summarize_def js_sort_def)
next
  assume a: "map confidence xs = [90, 40, 70, 95]"
  then obtain s1 s2 s3 s4 where xs: "xs = [s1, s2, s3, s4]"
    "confidence s1 = 90" "confidence s2 = 40" "confidence s3 = 70" "confidence s4 = 95"
    by (auto simp: map_eq_Cons_conv)
  show "map ts_confidence (topSignals (fst (summarize xs))) = [95, 90, 70]"
    by (simp add: summarize_parts xs js_sort_def by_confidence_desc_def top_of_def)
next
  show "topSignals (fst (summarize ys)) = map top_of (take 3 (js_sort by_confidence_desc ys))"
    by (rule summarize_parts)
  show "sorted_wrt (\<lambda>a b. confidence a \<ge> confidence b) (js_sort by_confidence_desc ys)"
    by (rule js_sort_descending)
  show "filter (\<lambda>s. confidence s = c) (js_sort by_confidence_desc ys) =
     filter (\<lambda>s. confidence s = c) ys"
    by (rule js_sort_stable)
qed

text \<open>Four results with the confidences of the claim; the symbols show the order.\<close>

theorem summarize_top_three_witness:
  "map confidence [demo_signal ''AAA'' 90, demo_signal ''BBB'' 40, demo_signal ''CCC'' 70,
                   demo_signal ''DDD'' 95] = [90, 40, 70, 95] \<and>
   map ts_confidence (topSignals (fst (summarize
     [demo_signal ''AAA'' 90, demo_signal ''BBB'' 40, demo_signal ''CCC'' 70,
      demo_signal ''DDD'' 95]))) = [95, 90, 70]"
proof -
  have h: "map confidence [demo_signal ''AAA'' 90, demo_signal ''BBB'' 40,
      demo_signal ''CCC'' 70, demo_signal ''DDD'' 95] = [90, 40, 70, 95]"
    by (simp add: demo_signal_def)
  from summarize_top_three[of "[demo_signal ''AAA'' 90, demo_signal ''BBB'' 40,
      demo_signal ''CCC'' 70, demo_signal ''DDD'' 95]" "[]" 0] h
  show ?thesis by blast
qed

subsection \<open>C6: the progress percentage\<close>

text \<open>
  Claim C6 says that the progress percentage recorded after phase \<open>k\<close> of 7 is
  \<open>round (100 * k / 7)\<close>. The workflow has seven steps, but it numbers them 1, 2 and 3
  combined, 4, 5, 6, 6.5 and 7: its second step, \<^verbatim>\<open>select-and-fetch-data\<close>, writes the
  value of step number 2 while it scans and the value of step number 3 when it ends.
  On the run of five candidates in a store that accepts every call, the row of the job
  shows 43 after the second step, and \<open>round (100 * 2 / 7)\<close> is 29.
\<close>

theorem progress_after_select_counterexample:
  "initialize_job all_ok ''job_1'' fresh_db = (Inr ''job_1'', demo_initialized) \<and>
   fst (select_and_fetch_data all_ok (getSocialMetrics demo_request) ''job_1''
          (topCoins demo_event) demo_initialized) =
     Inr [demo_selected ''BTC'', demo_selected ''ETH'', demo_selected ''SOL''] \<and>
   row_progress ''job_1''
     (snd (select_and_fetch_data all_ok (getSocialMetrics demo_request) ''job_1''
             (topCoins demo_event) demo_initialized)) = Some 43 \<and>
   round (100 * rat_of_nat 2 / 7) = (29 :: int)"
proof -
  let ?s = "select_and_fetch_data all_ok (getSocialMetrics demo_request) ''job_1''
      (topCoins demo_event) demo_initialized"
  let ?sm = "[demo_selected ''BTC'', demo_selected ''ETH'', demo_selected ''SOL'']"
  have f: "fst ?s = Inr ?sm" by (rule demo_select_result)
  then have s: "?s = (Inr ?sm, snd ?s)" by (simp add: prod_eq_iff)
  have row: "row_progress ''job_1'' demo_initialized \<noteq> None"
    by (simp add: row_progress_def demo_initialized_row(2))
  have p: "row_progress ''job_1'' (snd ?s) = Some 43"
    by (rule row_progress_select_and_fetch_data[OF updates_all_ok row s])
  note r = round_values(2)
  show ?thesis by (intro conjI demo_initialized_row(1) f p r)
qed

text \<open>
  Claim C6, as amended. Every progress update writes the percentage of the step number
  \<open>k\<close> it is called with, which is \<open>round (100 * k / 7)\<close> for the step numbers 1 to 7:
  14, 29, 43, 57, 71, 86 and 100. The job row is created with 14, the value of step
  number 1, and an update the store accepts leaves the row with the value of its step
  number. In a run that returns, in a store that accepts the updates of the job row,
  the row shows 14 after
  \<^verbatim>\<open>initialize-job\<close>, 43 after \<^verbatim>\<open>select-and-fetch-data\<close>, 57 after
  \<^verbatim>\<open>generate-ai-signals\<close>, 71 after \<^verbatim>\<open>save-to-database\<close>, 86 after
  \<^verbatim>\<open>generate-summary\<close> and after \<^verbatim>\<open>send-notifications\<close>, and 100 after
  \<^verbatim>\<open>complete-job\<close>, whose state is the final state of the run: the values of the step
  numbers 1, 3, 4, 5, 6, 6 and 7. Over every run of the workflow, from any state of
  the store and whatever the store and the capabilities do, the progress percentages
  of the rows written, in the order they are written, never decrease, and each of
  them is the value of one of the step numbers 1 to 7.
\<close>

theorem progress_rounds_and_never_decreases:
  "(\<forall>i\<in>{1..7}. progressPercentage i = round (100 * rat_of_nat i / 7)) \<and>
   map progressPercentage [1, 2, 3, 4, 5, 6, 7] = [14, 29, 43, 57, 71, 86, 100] \<and>
   (initialize_job sb j w0 = (Inr x, wi) \<longrightarrow>
      row_progress j wi = Some (progressPercentage 1)) \<and>
   (updateJob sb (updates wu) = DbOk \<and> row_progress j wu \<noteq> None \<longrightarrow>
      row_progress j (updateProgress sb j k n m s wu) = Some (progressPercentage k)) \<and>
   (fst (run_steps sb fetch scoreOne ev w) = Inr r \<and> (\<forall>n. updateJob sb n = DbOk) \<longrightarrow>
      (\<exists>w1 w2 w3 w4 w5 w6 w7.
         initialize_job sb (run_jobId r) w = (Inr (run_jobId r), w1) \<and>
         row_progress (run_jobId r) w1 = Some 14 \<and>
         select_and_fetch_data sb fetch (run_jobId r) (topCoins ev) w1 =
           (Inr (run_socialMetrics r), w2) \<and>
         row_progress (run_jobId r) w2 = Some 43 \<and>
         generate_ai_signals sb scoreOne (run_jobId r) (run_socialMetrics r) w2 =
           (run_tradingSignals r, w3) \<and>
         row_progress (run_jobId r) w3 = Some 57 \<and>
         save_to_database sb (run_jobId r) (run_tradingSignals r) w3 =
           (run_savedSignals r, w4) \<and>
         row_progress (run_jobId r) w4 = Some 71 \<and>
         generate_summary sb (run_jobId r) (run_tradingSignals r) w4 =
           (run_summary r, run_tradingSignals_final r, w5) \<and>
         row_progress (run_jobId r) w5 = Some 86 \<and>
         send_notifications sb (run_jobId r) (run_tradingSignals_final r) w5 = w6 \<and>
         row_progress (run_jobId r) w6 = Some 86 \<and>
         complete_job sb (run_jobId r) (run_tradingSignals_final r) (run_summary r) w6 = w7 \<and>
         row_progress (run_jobId r) w7 = Some 100 \<and>
         snd (signalAnalysisWorkflow sb fetch scoreOne ev w) = w7)) \<and>
   sorted (map progress_percentage
     (written w (snd (signalAnalysisWorkflow sb fetch scoreOne ev w)))) \<and>
   (\<forall>r\<in>set (written w (snd (signalAnalysisWorkflow sb fetch scoreOne ev w))).
      \<exists>k\<in>{1..7}. progress_percentage r = progressPercentage k)"
proof (intro conjI impI)
  show "\<forall>i\<in>{1..7}. progressPercentage i = round (100 * rat_of_nat i / 7)"
    using progressPercentage_round by blast
  show "map progressPercentage [1, 2, 3, 4, 5, 6, 7] = [14, 29, 43, 57, 71, 86, 100]"
    by (simp add: progressPercentage_1 progress_values)
next
  assume "initialize_job sb j w0 = (Inr x, wi)"
  from row_progress_initialize_job[OF this]
  show "row_progress j wi = Some (progressPercentage 1)"
    by (simp add: progressPercentage_1)
next
  assume a: "updateJob sb (updates wu) = DbOk \<and> row_progress j wu \<noteq> None"
  then obtain row where row: "analysis_jobs wu j = Some row"
    by (auto simp: row_progress_def)
  from a updateProgress_row[OF _ row, of sb k n m s]
  show "row_progress j (updateProgress sb j k n m s wu) = Some (progressPercentage k)"
    by (simp add: row_progress_def)
next
  assume a: "fst (run_steps sb fetch scoreOne ev w) = Inr r \<and> (\<forall>n. updateJob sb n = DbOk)"
  then have run: "fst (run_steps sb fetch scoreOne ev w) = Inr r"
    and ok: "\<forall>n. updateJob sb n = DbOk" by simp_all
  show "\<exists>w1 w2 w3 w4 w5 w6 w7.
         initialize_job sb (run_jobId r) w = (Inr (run_jobId r), w1) \<and>
         row_progress (run_jobId r) w1 = Some 14 \<and>
         select_and_fetch_data sb fetch (run_jobId r) (topCoins ev) w1 =
           (Inr (run_socialMetrics r), w2) \<and>
         row_progress (run_jobId r) w2 = Some 43 \<and>
         generate_ai_signals sb scoreOne (run_jobId r) (run_socialMetrics r) w2 =
           (run_tradingSignals r, w3) \<and>
         row_progress (run_jobId r) w3 = Some 57 \<and>
         save_to_database sb (run_jobId r) (run_tradingSignals r) w3 =
           (run_savedSignals r, w4) \<and>
         row_progress (run_jobId r) w4 = Some 71 \<and>
         generate_summary sb (run_jobId r) (run_tradingSignals r) w4 =
           (run_summary r, run_tradingSignals_final r, w5) \<and>
         row_progress (run_jobId r) w5 = Some 86 \<and>
         send_notifications sb (run_jobId r) (run_tradingSignals_final r) w5 = w6 \<and>
         row_progress (run_jobId r) w6 = Some 86 \<and>
         complete_job sb (run_jobId r) (run_tradingSignals_final r) (run_summary r) w6 = w7 \<and>
         row_progress (run_jobId r) w7 = Some 100 \<and>
         snd (signalAnalysisWorkflow sb fetch scoreOne ev w) = w7"
    unfolding workflow_run_steps(1) by (rule run_steps_progress[OF run ok])
next
  from written_run[of w sb fetch scoreOne ev]
  show "sorted (map progress_percentage
     (written w (snd (signalAnalysisWorkflow sb fetch scoreOne ev w))))"
    by (auto simp: workflow_run_steps)
  from written_run[of w sb fetch scoreOne ev]
  show "\<forall>r\<in>set (written w (snd (signalAnalysisWorkflow sb fetch scoreOne ev w))).
      \<exists>k\<in>{1..7}. progress_percentage r = progressPercentage k"
    using step_values_are_steps by (auto simp: workflow_run_steps)
qed

text \<open>
  The hypotheses hold for the step number 4, for the job row just created and an
  update of step number 4 on it, and for the run of five candidates in a store that
  accepts every call.
\<close>

theorem progress_rounds_and_never_decreases_witness:
  "progressPercentage 4 = round (100 * rat_of_nat 4 / 7) \<and>
   initialize_job all_ok ''job_1'' fresh_db = (Inr ''job_1'', demo_initialized) \<and>
   row_progress ''job_1'' demo_initialized = Some 14 \<and>
   updateJob all_ok (updates demo_initialized) = DbOk \<and>
   row_progress ''job_1'' demo_initialized \<noteq> None \<and>
   row_progress ''job_1''
     (updateProgress all_ok ''job_1'' 4 ''AI Signal Generation''
        ''Google Gemini analyzing all coins in parallel...'' ''started'' demo_initialized) =
     Some 57 \<and>
   (\<forall>n. updateJob all_ok n = DbOk) \<and>
   (\<exists>r w1 w2 w3 w4 w5 w6 w7.
      fst (run_steps all_ok (getSocialMetrics demo_request) (generateTradingSignal demo_gemini)
             demo_event fresh_db) = Inr r \<and>
      run_jobId r = ''job_1'' \<and>
      initialize_job all_ok ''job_1'' fresh_db = (Inr ''job_1'', w1) \<and>
      row_progress ''job_1'' w1 = Some 14 \<and>
      select_and_fetch_data all_ok (getSocialMetrics demo_request) ''job_1''
        (topCoins demo_event) w1 = (Inr (run_socialMetrics r), w2) \<and>
      row_progress ''job_1'' w2 = Some 43 \<and>
      generate_ai_signals all_ok (generateTradingSignal demo_gemini) ''job_1''
        (run_socialMetrics r) w2 = (run_tradingSignals r, w3) \<and>
      row_progress ''job_1'' w3 = Some 57 \<and>
      save_to_database all_ok ''job_1'' (run_tradingSignals r) w3 = (run_savedSignals r, w4) \<and>
      row_progress ''job_1'' w4 = Some 71 \<and>
      generate_summary all_ok ''job_1'' (run_tradingSignals r) w4 =
        (run_summary r, run_tradingSignals_final r, w5) \<and>
      row_progress ''job_1'' w5 = Some 86 \<and>
      send_notifications all_ok ''job_1'' (run_tradingSignals_final r) w5 = w6 \<and>
      row_progress ''job_1'' w6 = Some 86 \<and>
      complete_job all_ok ''job_1'' (run_tradingSignals_final r) (run_summary r) w6 = w7 \<and>
      row_progress ''job_1'' w7 = Some 100 \<and>
      snd (signalAnalysisWorkflow all_ok (getSocialMetrics demo_request)
             (generateTradingSignal demo_gemini) demo_event fresh_db) = w7) \<and>
   sorted (map progress_percentage
     (written fresh_db (snd (signalAnalysisWorkflow all_ok (getSocialMetrics demo_request)
        (generateTradingSignal demo_gemini) demo_event fresh_db))))"
proof -
  note h = demo_initialized_row
  have h4: "row_progress ''job_1'' demo_initialized \<noteq> None"
    by (simp add: row_progress_def h(2))
  from demo_run_result obtain r where
    r: "fst (run_steps all_ok (getSocialMetrics demo_request) (generateTradingSignal demo_gemini)
          demo_event fresh_db) = Inr r" "run_jobId r = ''job_1''"
    by (elim exE conjE)
  note t = progress_rounds_and_never_decreases[where k = 4 and sb = all_ok and j = "''job_1''"
      and ?w0.0 = fresh_db and x = "''job_1''" and wi = demo_initialized
      and wu = demo_initialized and n = "''AI Signal Generation''"
      and m = "''Google Gemini analyzing all coins in parallel...''" and s = "''started''"
      and fetch = "getSocialMetrics demo_request"
      and scoreOne = "generateTradingSignal demo_gemini" and ev = demo_event
      and w = fresh_db and r = r]
  have "(4::nat) \<in> {1..7}" by simp
  from bspec[OF t[THEN conjunct1] this]
  have c0: "progressPercentage 4 = round (100 * rat_of_nat 4 / 7)" .
  from t h(1) have c1: "row_progress ''job_1'' demo_initialized = Some 14"
    by (simp add: progressPercentage_1)
  from t h(3) h4 have c2: "row_progress ''job_1''
     (updateProgress all_ok ''job_1'' 4 ''AI Signal Generation''
        ''Google Gemini analyzing all coins in parallel...'' ''started'' demo_initialized) =
     Some 57"
    by (simp add: progress_values)
  note t5 = t[THEN conjunct2, THEN conjunct2, THEN conjunct2, THEN conjunct2, THEN conjunct1]
  from mp[OF t5 conjI[OF r(1) updates_all_ok]] have "\<exists>w1 w2 w3 w4 w5 w6 w7.
      initialize_job all_ok ''job_1'' fresh_db = (Inr ''job_1'', w1) \<and>
      row_progress ''job_1'' w1 = Some 14 \<and>
      select_and_fetch_data all_ok (getSocialMetrics demo_request) ''job_1''
        (topCoins demo_event) w1 = (Inr (run_socialMetrics r), w2) \<and>
      row_progress ''job_1'' w2 = Some 43 \<and>
      generate_ai_signals all_ok (generateTradingSignal demo_gemini) ''job_1''
        (run_socialMetrics r) w2 = (run_tradingSignals r, w3) \<and>
      row_progress ''job_1'' w3 = Some 57 \<and>
      save_to_database all_ok ''job_1'' (run_tradingSignals r) w3 = (run_savedSignals r, w4) \<and>
      row_progress ''job_1'' w4 = Some 71 \<and>
      generate_summary all_ok ''job_1'' (run_tradingSignals r) w4 =
        (run_summary r, run_tradingSignals_final r, w5) \<and>
      row_progress ''job_1'' w5 = Some 86 \<and>
      send_notifications all_ok ''job_1'' (run_tradingSignals_final r) w5 = w6 \<and>
      row_progress ''job_1'' w6 = Some 86 \<and>
      complete_job all_ok ''job_1'' (run_tradingSignals_final r) (run_summary r) w6 = w7 \<and>
      row_progress ''job_1'' w7 = Some 100 \<and>
      snd (signalAnalysisWorkflow all_ok (getSocialMetrics demo_request)
             (generateTradingSignal demo_gemini) demo_event fresh_db) = w7"
    unfolding r(2) .
  then obtain w1 w2 w3 w4 w5 w6 w7 where c3:
      "initialize_job all_ok ''job_1'' fresh_db = (Inr ''job_1'', w1)"
      "row_progress ''job_1'' w1 = Some 14"
      "select_and_fetch_data all_ok (getSocialMetrics demo_request) ''job_1''
        (topCoins demo_event) w1 = (Inr (run_socialMetrics r), w2)"
      "row_progress ''job_1'' w2 = Some 43"
      "generate_ai_signals all_ok (generateTradingSignal demo_gemini) ''job_1''
        (run_socialMetrics r) w2 = (run_tradingSignals r, w3)"
      "row_progress ''job_1'' w3 = Some 57"
      "save_to_database all_ok ''job_1'' (run_tradingSignals r) w3 = (run_savedSignals r, w4)"
      "row_progress ''job_1'' w4 = Some 71"
      "generate_summary all_ok ''job_1'' (run_tradingSignals r) w4 =
        (run_summary r, run_tradingSignals_final r, w5)"
      "row_progress ''job_1'' w5 = Some 86"
      "send_notifications all_ok ''job_1'' (run_tradingSignals_final r) w5 = w6"
      "row_progress ''job_1'' w6 = Some 86"
      "complete_job all_ok ''job_1'' (run_tradingSignals_final r) (run_summary r) w6 = w7"
      "row_progress ''job_1'' w7 = Some 100"
      "snd (signalAnalysisWorkflow all_ok (getSocialMetrics demo_request)
             (generateTradingSignal demo_gemini) demo_event fresh_db) = w7"
    by (elim exE conjE)
  from t have c4: "sorted (map progress_percentage
     (written fresh_db (snd (signalAnalysisWorkflow all_ok (getSocialMetrics demo_request)
        (generateTradingSignal demo_gemini) demo_event fresh_db))))"
    by (elim conjE)
  show ?thesis
    by (intro conjI c0 h(1) c1 h(3) h4 c2 updates_all_ok c4
        exI[of _ r] exI[of _ w1] exI[of _ w2] exI[of _ w3] exI[of _ w4] exI[of _ w5]
        exI[of _ w6] exI[of _ w7] r c3)
qed

subsection \<open>C7: the status of the job row\<close>

text \<open>
  Claim C7, as amended. Once the status of the job row has become \<^verbatim>\<open>completed\<close> it
  does not change again during the run: the rows a run writes are rows that are not
  \<^verbatim>\<open>completed\<close>, followed by the rows written by \<^verbatim>\<open>complete-job\<close> (at most two),
  which are \<^verbatim>\<open>completed\<close>; so the row becomes completed at most once per run, and
  the workflow sends no progress update after that. \<^verbatim>\<open>updateProgress\<close> itself does
  not look at the status of the row: an update the store accepts sets step, message,
  progress and status as given, whatever the row held, so that a progress update on
  a completed job is neither rejected nor without effect.
\<close>

theorem completed_is_final_within_a_run:
  "(\<exists>pre post. written w (snd (signalAnalysisWorkflow sb fetch scoreOne ev w)) = pre @ post \<and>
      (\<forall>r\<in>set pre. status r \<noteq> ''completed'') \<and>
      (\<forall>r\<in>set post. status r = ''completed'') \<and> length post \<le> 2) \<and>
   (updateJob sb (updates w2) = DbOk \<and> analysis_jobs w2 j = Some row \<longrightarrow>
      analysis_jobs (updateProgress sb j k n m s w2) j =
        Some (row\<lparr>current_step := n, step_message := m,
                 progress_percentage := progressPercentage k, status := s\<rparr>))"
proof (intro conjI impI)
  from written_run[of w sb fetch scoreOne ev] obtain pre post where
    p: "written w (snd (run_steps sb fetch scoreOne ev w)) = pre @ post"
    "\<forall>r\<in>set pre. status r = ''started''"
    "\<forall>r\<in>set post. status r = ''completed''"
    "length post \<le> 2"
    by (elim exE conjE)
  from p(2) have q: "\<forall>r\<in>set pre. status r \<noteq> ''completed''" by simp
  from p(1,3,4) q
  show "\<exists>pre post. written w (snd (signalAnalysisWorkflow sb fetch scoreOne ev w)) = pre @ post \<and>
      (\<forall>r\<in>set pre. status r \<noteq> ''completed'') \<and>
      (\<forall>r\<in>set post. status r = ''completed'') \<and> length post \<le> 2"
    by (intro exI[of _ pre] exI[of _ post]) (simp add: workflow_run_steps)
next
  assume a: "updateJob sb (updates w2) = DbOk \<and> analysis_jobs w2 j = Some row"
  then show "analysis_jobs (updateProgress sb j k n m s w2) j =
        Some (row\<lparr>current_step := n, step_message := m,
                 progress_percentage := progressPercentage k, status := s\<rparr>)"
    by (simp add: updateProgress_row)
qed

text \<open>
  The hypotheses hold for an update of step 4 on the job row just created; the run is
  the one of five candidates in an accepting store.
\<close>

theorem completed_is_final_within_a_run_witness:
  "updateJob all_ok (updates demo_initialized) = DbOk \<and>
   analysis_jobs demo_initialized ''job_1'' = Some demo_job_row \<and>
   analysis_jobs (updateProgress all_ok ''job_1'' 4 ''AI Signal Generation''
        ''Google Gemini analyzing all coins in parallel...'' ''started'' demo_initialized)
       ''job_1'' =
     Some (demo_job_row\<lparr>current_step := ''AI Signal Generation'',
             step_message := ''Google Gemini analyzing all coins in parallel...'',
             progress_percentage := progressPercentage 4, status := ''started''\<rparr>) \<and>
   (\<exists>pre post. written fresh_db (snd (signalAnalysisWorkflow all_ok (getSocialMetrics demo_request)
        (generateTradingSignal demo_gemini) demo_event fresh_db)) = pre @ post \<and>
      (\<forall>r\<in>set pre. status r \<noteq> ''completed'') \<and>
      (\<forall>r\<in>set post. status r = ''completed'') \<and> length post \<le> 2)"
proof -
  note h = demo_initialized_row(3) demo_initialized_row(2)
  from completed_is_final_within_a_run[of fresh_db all_ok "getSocialMetrics demo_request"
      "generateTradingSignal demo_gemini" demo_event demo_initialized "''job_1''" demo_job_row
      4 "''AI Signal Generation''" "''Google Gemini analyzing all coins in parallel...''"
      "''started''"] h
  show ?thesis by (intro conjI) simp_all
qed

text \<open>
  The claim as stated has every progress update after a terminal status rejected or
  without effect. On the row that a completed run leaves, \<^verbatim>\<open>updateProgress\<close> with
  its default status puts the status back to \<^verbatim>\<open>started\<close>.
\<close>

theorem update_after_completed_counterexample:
  "map_option status (analysis_jobs (snd demo_partial_run) ''job_1'') = Some ''completed'' \<and>
   map_option status
     (analysis_jobs (updateProgress second_write_fails ''job_1'' 5 ''Saving Results''
        ''Saved 3/3 signals to database...'' ''started'' (snd demo_partial_run)) ''job_1'') =
     Some ''started''"
proof -
  from demo_partial_run_row obtain row where
    row: "analysis_jobs (snd demo_partial_run) ''job_1'' = Some row"
    "status row = ''completed''"
    by (elim exE conjE)
  have ok: "updateJob second_write_fails (updates (snd demo_partial_run)) = DbOk"
    by (simp add: second_write_fails_def)
  from updateProgress_row[OF ok row(1)] row show ?thesis by simp
qed

subsection \<open>C8: the summary step sorts its input in place\<close>

text \<open>
  Claim C8 says that \<open>summarize\<close> leaves its input sequence unchanged. The code calls
  \<^verbatim>\<open>tradingSignals.sort(...)\<close> on the input array itself, before \<^verbatim>\<open>slice\<close> copies it:
  after the step the array \<^verbatim>\<open>tradingSignals\<close> is ordered by confidence, and the steps
  \<^verbatim>\<open>send-notifications\<close> and \<^verbatim>\<open>complete-job\<close> read it in that order. On the input
  with confidences 40, 90 the array is left as 90, 40.
\<close>

theorem summarize_reorders_input:
  "snd (summarize [demo_signal ''AAA'' 40, demo_signal ''BBB'' 90]) =
     [demo_signal ''BBB'' 90, demo_signal ''AAA'' 40] \<and>
   snd (summarize [demo_signal ''AAA'' 40, demo_signal ''BBB'' 90]) \<noteq>
     [demo_signal ''AAA'' 40, demo_signal ''BBB'' 90]"
  by (simp add: summarize_parts js_sort_def by_confidence_desc_def demo_signal_def)

subsection \<open>C9: the scoring capability falls back instead of throwing\<close>

text \<open>
  Claim C9 says that \<^verbatim>\<open>generateTradingSignal\<close> returns the rule-based fallback signal
  when the model call or the parsing of the response fails for any reason. A reply in
  which the patterns of \<^verbatim>\<open>parseSignalResponse\<close> find nothing is not an exception:
  each part that is missing takes its default after \<^verbatim>\<open>||\<close>. For metrics with three
  positive indicators and a reply without any match the result is \<open>HOLD\<close> with
  confidence 50 and the default reasoning, where the fallback signal is \<open>BUY\<close> with
  confidence 90.
\<close>

theorem unparsable_reply_counterexample:
  "generateContent unparsable_gemini ''ETH'' demo_metrics =
     Inr (Some \<lparr>signalMatch = None, confidenceMatch = None, reasoningMatch = None\<rparr>) \<and>
   generateTradingSignal unparsable_gemini ''ETH'' demo_metrics =
     Inr \<lparr>sig_symbol = ''ETH'', signal = HOLD, confidence = 50,
          sig_reasoning = ReasonText ''Analysis based on social metrics'',
          sig_metrics = demo_metrics\<rparr> \<and>
   createFallbackSignal ''ETH'' demo_metrics =
     \<lparr>sig_symbol = ''ETH'', signal = BUY, confidence = 90,
      sig_reasoning = StrongSocialSignals 3, sig_metrics = demo_metrics\<rparr> \<and>
   generateTradingSignal unparsable_gemini ''ETH'' demo_metrics \<noteq>
     Inr (createFallbackSignal ''ETH'' demo_metrics)"
proof -
  have c: "generateContent unparsable_gemini ''ETH'' demo_metrics =
     Inr (Some \<lparr>signalMatch = None, confidenceMatch = None, reasoningMatch = None\<rparr>)"
    by (simp add: unparsable_gemini_def)
  have k: "apiKey unparsable_gemini = Some ''key''" by (simp add: unparsable_gemini_def)
  have g: "generateTradingSignal unparsable_gemini ''ETH'' demo_metrics =
     Inr \<lparr>sig_symbol = ''ETH'', signal = HOLD, confidence = 50,
          sig_reasoning = ReasonText ''Analysis based on social metrics'',
          sig_metrics = demo_metrics\<rparr>"
    by (simp add: generateTradingSignal_def callModel_def getGeminiClient_def k c
        parseSignalResponse_def)
  have f: "createFallbackSignal ''ETH'' demo_metrics =
     \<lparr>sig_symbol = ''ETH'', signal = BUY, confidence = 90,
      sig_reasoning = StrongSocialSignals 3, sig_metrics = demo_metrics\<rparr>"
    by (simp add: createFallbackSignal_def Let_def positiveSignals_demo)
  show ?thesis unfolding g f using c by simp
qed

text \<open>
  Claim C9, as amended. \<^verbatim>\<open>generateTradingSignal\<close> never throws. When the model call
  throws (no API key, or the request fails) or parsing the response throws (the
  response is not a string), it returns the rule-based fallback signal: with \<open>n\<close> of
  the four indicators positive, \<open>BUY\<close> with confidence \<open>60 + 10 * n\<close> when \<open>n \<ge> 3\<close>,
  \<open>SELL\<close> with confidence 60 when \<open>n \<le> 1\<close>, and \<open>HOLD\<close> with confidence 50 otherwise.
  When the model replies with a text, parsing does not fail: each of the decision, the
  confidence and the reasoning is what its pattern finds, the confidence capped at
  100, and a part without a match takes the default \<open>HOLD\<close>, 50 or
  \<^verbatim>\<open>Analysis based on social metrics\<close>, so that a reply without any match gives
  \<open>HOLD\<close> with confidence 50 and not the fallback signal.

  The indicators are counted on the metrics themselves (\<open>positive_indicators\<close>): the
  engagement, a rank below 100, a galaxy score above 70 and more than 1000 creators.
  For fewer than \<open>2 ^ 47\<close> mentions the engagement indicator is the comparison of the
  interactions with 100 times \<^verbatim>\<open>max(mentions, 1)\<close>; above, the rounding of the quotient
  can make a quotient just over 100 equal to 100 (lemmas \<open>engagementRatio_rounded\<close>
  and \<open>fallback_rounded\<close>).
\<close>

theorem generateTradingSignal_never_raises:
  "(\<exists>s. generateTradingSignal g symbol metrics = Inr s) \<and>
   ((apiKey g = None \<or> apiKey g = Some [] \<or>
     (\<exists>e. generateContent g symbol metrics = Inl e) \<or>
     generateContent g symbol metrics = Inr None) \<longrightarrow>
    generateTradingSignal g symbol metrics = Inr (createFallbackSignal symbol metrics)) \<and>
   (apiKey g = Some key \<and> key \<noteq> [] \<and> generateContent g symbol metrics = Inr (Some reply) \<longrightarrow>
    generateTradingSignal g symbol metrics =
      Inr \<lparr>sig_symbol = symbol,
           signal = (case signalMatch reply of None \<Rightarrow> HOLD | Some d \<Rightarrow> d),
           confidence = (case confidenceMatch reply of None \<Rightarrow> 50 | Some c \<Rightarrow> min 100 (int c)),
           sig_reasoning =
             (case reasoningMatch reply of
                None \<Rightarrow> ReasonText ''Analysis based on social metrics''
              | Some t \<Rightarrow>
                  if t = [] then ReasonText ''Analysis based on social metrics''
                  else ReasonText t),
           sig_metrics = metrics\<rparr>) \<and>
   sig_symbol (createFallbackSignal symbol metrics) = symbol \<and>
   sig_metrics (createFallbackSignal symbol metrics) = metrics \<and>
   signal (createFallbackSignal symbol metrics) =
     (if 3 \<le> positive_indicators metrics then BUY
      else if positive_indicators metrics \<le> 1 then SELL else HOLD) \<and>
   confidence (createFallbackSignal symbol metrics) =
     (if 3 \<le> positive_indicators metrics then 60 + 10 * int (positive_indicators metrics)
      else if positive_indicators metrics \<le> 1 then 60 else 50) \<and>
   positive_indicators metrics \<le> 4 \<and>
   (mentions metrics < 2 ^ 47 \<longrightarrow>
      high_engagement metrics = (100 * max (mentions metrics) 1 < interactions metrics))"
proof -
  have a: "\<exists>s. generateTradingSignal g symbol metrics = Inr s"
    by (simp add: generateTradingSignal_def split: sum.splits)
  have b: "(apiKey g = None \<or> apiKey g = Some [] \<or>
     (\<exists>e. generateContent g symbol metrics = Inl e) \<or>
     generateContent g symbol metrics = Inr None) \<longrightarrow>
    generateTradingSignal g symbol metrics = Inr (createFallbackSignal symbol metrics)"
    by (auto simp: generateTradingSignal_def callModel_def getGeminiClient_def
        parseSignalResponse_def split: sum.splits option.splits if_splits)
  have c: "apiKey g = Some key \<and> key \<noteq> [] \<and>
      generateContent g symbol metrics = Inr (Some reply) \<longrightarrow>
    generateTradingSignal g symbol metrics =
      Inr \<lparr>sig_symbol = symbol,
           signal = (case signalMatch reply of None \<Rightarrow> HOLD | Some d \<Rightarrow> d),
           confidence = (case confidenceMatch reply of None \<Rightarrow> 50 | Some c \<Rightarrow> min 100 (int c)),
           sig_reasoning =
             (case reasoningMatch reply of
                None \<Rightarrow> ReasonText ''Analysis based on social metrics''
              | Some t \<Rightarrow>
                  if t = [] then ReasonText ''Analysis based on social metrics''
                  else ReasonText t),
           sig_metrics = metrics\<rparr>"
    by (cases "confidenceMatch reply")
       (simp_all add: generateTradingSignal_def callModel_def getGeminiClient_def
          parseSignalResponse_def)
  have d: "sig_symbol (createFallbackSignal symbol metrics) = symbol"
    "sig_metrics (createFallbackSignal symbol metrics) = metrics"
    by (simp_all add: createFallbackSignal_def Let_def)
  note e = fallback_rule[of symbol metrics, unfolded positiveSignals_indicators]
  have f: "positive_indicators metrics \<le> 4"
    using positiveSignals_le[of metrics] by (simp only: positiveSignals_indicators)
  have h: "mentions metrics < 2 ^ 47 \<longrightarrow>
      high_engagement metrics = (100 * max (mentions metrics) 1 < interactions metrics)"
    using high_engagement_exact[of metrics] by blast
  show ?thesis by (intro conjI a b c d e f h)
qed

text \<open>
  The model call for \<open>ETH\<close> throws, and three indicators are positive for the metrics:
  \<open>BUY\<close>, 90. For \<open>SOL\<close> the model replies, and the parts of its reply are returned.
\<close>

theorem generateTradingSignal_never_raises_witness:
  "generateContent demo_gemini ''ETH'' demo_metrics = Inl (Error ''deadline exceeded'') \<and>
   generateTradingSignal demo_gemini ''ETH'' demo_metrics =
     Inr (createFallbackSignal ''ETH'' demo_metrics) \<and>
   positive_indicators demo_metrics = 3 \<and>
   signal (createFallbackSignal ''ETH'' demo_metrics) = BUY \<and>
   confidence (createFallbackSignal ''ETH'' demo_metrics) = 90 \<and>
   mentions demo_metrics < 2 ^ 47 \<and>
   high_engagement demo_metrics = (100 * max (mentions demo_metrics) 1 < interactions demo_metrics) \<and>
   apiKey demo_gemini = Some ''key'' \<and> ''key'' \<noteq> [] \<and>
   generateContent demo_gemini ''SOL'' demo_metrics =
     Inr (Some \<lparr>signalMatch = Some BUY, confidenceMatch = Some 85,
                reasoningMatch = Some ''Strong engagement''\<rparr>) \<and>
   generateTradingSignal demo_gemini ''SOL'' demo_metrics =
     Inr \<lparr>sig_symbol = ''SOL'', signal = BUY, confidence = 85,
          sig_reasoning = ReasonText ''Strong engagement'', sig_metrics = demo_metrics\<rparr>"
proof -
  have h: "generateContent demo_gemini ''ETH'' demo_metrics = Inl (Error ''deadline exceeded'')"
    by (simp add: demo_gemini_def)
  have n: "positive_indicators demo_metrics = 3"
    by (simp add: positive_indicators_def high_engagement_def demo_metrics_def)
  have m: "mentions demo_metrics < 2 ^ 47" by (simp add: demo_metrics_def)
  have k: "apiKey demo_gemini = Some ''key''" "''key'' \<noteq> []"
    "generateContent demo_gemini ''SOL'' demo_metrics =
       Inr (Some \<lparr>signalMatch = Some BUY, confidenceMatch = Some 85,
                  reasoningMatch = Some ''Strong engagement''\<rparr>)"
    by (simp_all add: demo_gemini_def)
  from generateTradingSignal_never_raises[of demo_gemini "''ETH''" demo_metrics] h n m
  have 1: "generateTradingSignal demo_gemini ''ETH'' demo_metrics =
       Inr (createFallbackSignal ''ETH'' demo_metrics)"
    "signal (createFallbackSignal ''ETH'' demo_metrics) = BUY"
    "confidence (createFallbackSignal ''ETH'' demo_metrics) = 90"
    "high_engagement demo_metrics =
       (100 * max (mentions demo_metrics) 1 < interactions demo_metrics)"
    by simp_all
  from generateTradingSignal_never_raises[of demo_gemini "''SOL''" demo_metrics "''key''"
      "\<lparr>signalMatch = Some BUY, confidenceMatch = Some 85,
        reasoningMatch = Some ''Strong engagement''\<rparr>"] k
  have 2: "generateTradingSignal demo_gemini ''SOL'' demo_metrics =
     Inr \<lparr>sig_symbol = ''SOL'', signal = BUY, confidence = 85,
          sig_reasoning = ReasonText ''Strong engagement'', sig_metrics = demo_metrics\<rparr>"
    by simp
  show ?thesis by (intro conjI h 1 n m k 2)
qed

subsection \<open>C10: a failed topic fetch is absent data\<close>

text \<open>
  Claim C10. When the topic request for a candidate fails (the request throws, for a
  network error, a timeout or an error status, or the response has no \<^verbatim>\<open>data\<close>
  object), \<^verbatim>\<open>getSocialMetrics\<close> does not throw: it returns metrics whose three
  counters are zero, which the completeness test rejects, so the selection loop logs
  the candidate as having no social data and does not take its \<^verbatim>\<open>catch\<close> path. A
  run that reaches the topic fetches (a job id, the job row created, a non-empty
  candidate list) and in which every topic fetch fails ends with the error
  \<^verbatim>\<open>No coins with complete social data found in top 10\<close>, every candidate logged as
  having no social data.
\<close>

theorem failed_topic_fetch_is_absent_data:
  "(topic_fetch_fails makeRequest (coin_symbol coin) \<longrightarrow>
      getSocialMetrics makeRequest coin = Inr (zero_metrics coin) \<and>
      \<not> has_real_data (zero_metrics coin) \<and>
      verdict (getSocialMetrics makeRequest) coin = NoSocialData (coin_symbol coin)) \<and>
   (jobId ev = Some j \<and> j \<noteq> [] \<and> insertJob sb = DbOk \<and> topCoins ev = Some cs \<and> cs \<noteq> [] \<and>
    (\<forall>c\<in>set cs. topic_fetch_fails makeRequest (coin_symbol c)) \<longrightarrow>
      fst (signalAnalysisWorkflow sb (getSocialMetrics makeRequest) scoreOne ev w) =
        Inl (Error ''No coins with complete social data found in top 10'') \<and>
      console (snd (signalAnalysisWorkflow sb (getSocialMetrics makeRequest) scoreOne ev w)) =
        console w @ map (\<lambda>c. NoSocialData (coin_symbol c)) cs)"
proof (intro conjI impI)
  assume f: "topic_fetch_fails makeRequest (coin_symbol coin)"
  show "getSocialMetrics makeRequest coin = Inr (zero_metrics coin)"
    by (rule getSocialMetrics_fetch_fails[OF f])
  show "\<not> has_real_data (zero_metrics coin)"
    by (rule not_has_real_data_zero_metrics)
  show "verdict (getSocialMetrics makeRequest) coin = NoSocialData (coin_symbol coin)"
    by (simp add: verdict_def getSocialMetrics_fetch_fails[OF f] not_has_real_data_zero_metrics)
next
  assume a: "jobId ev = Some j \<and> j \<noteq> [] \<and> insertJob sb = DbOk \<and> topCoins ev = Some cs \<and>
    cs \<noteq> [] \<and> (\<forall>c\<in>set cs. topic_fetch_fails makeRequest (coin_symbol c))"
  let ?fetch = "getSocialMetrics makeRequest"
  from a obtain w1 where i: "initialize_job sb j w = (Inr j, w1)"
    using initialize_job_ok[of sb j w] by blast
  have cw1: "console w1 = console w"
    using console_initialize_job[of sb j w] i by simp
  have z: "\<forall>c\<in>set cs. \<forall>m. ?fetch c = Inr m \<longrightarrow> all_zero m"
    using a by (auto simp: getSocialMetrics_fetch_fails all_zero_zero_metrics)
  have v: "map (verdict ?fetch) cs = map (\<lambda>c. NoSocialData (coin_symbol c)) cs"
    using a
    by (auto simp: verdict_def getSocialMetrics_fetch_fails not_has_real_data_zero_metrics)
  have none: "List.map_filter (complete_item ?fetch) cs = []"
    using a
    by (auto simp: map_filter_eq_Nil_iff complete_item_def getSocialMetrics_fetch_fails
        not_has_real_data_zero_metrics)
  from a have ne: "cs \<noteq> []" by simp
  from select_step_scan[OF ne, of sb ?fetch j w1] obtain tested rest where
    t: "cs = tested @ rest"
    "console (snd (select_and_fetch_data sb ?fetch j (Some cs) w1)) =
       console w1 @ map (verdict ?fetch) tested"
    "List.map_filter (complete_item ?fetch) tested =
       take 3 (List.map_filter (complete_item ?fetch) cs)"
    "rest \<noteq> [] \<longrightarrow> length (List.map_filter (complete_item ?fetch) tested) = 3"
    "fst (select_and_fetch_data sb ?fetch j (Some cs) w1) =
       (if take 3 (List.map_filter (complete_item ?fetch) cs) = []
        then Inl (Error ''No coins with complete social data found in top 10'')
        else Inr (take 3 (List.map_filter (complete_item ?fetch) cs)))"
    by blast
  from t(3,4) none have "rest = []" by auto
  with t(1) have all: "tested = cs" by simp
  obtain w2 where s: "select_and_fetch_data sb ?fetch j (topCoins ev) w1 =
      (Inl (Error ''No coins with complete social data found in top 10''), w2)"
    using t(5) none a
    by (cases "select_and_fetch_data sb ?fetch j (Some cs) w1") simp
  have cw2: "console w2 = console w @ map (\<lambda>c. NoSocialData (coin_symbol c)) cs"
    using t(2) s a by (simp add: all cw1 v)
  from a have j: "jobId ev = Some j" "j \<noteq> []" by simp_all
  note run = run_steps_select_fail[OF j i s, of scoreOne]
  show "fst (signalAnalysisWorkflow sb ?fetch scoreOne ev w) =
        Inl (Error ''No coins with complete social data found in top 10'')"
    by (simp add: workflow_run_steps run)
  show "console (snd (signalAnalysisWorkflow sb ?fetch scoreOne ev w)) =
        console w @ map (\<lambda>c. NoSocialData (coin_symbol c)) cs"
    by (simp add: workflow_run_steps run cw2)
qed

text \<open>
  A run over three candidates: the first request gets an error status, the second a
  response without data, the third times out.
\<close>

theorem failed_topic_fetch_is_absent_data_witness:
  "topic_fetch_fails outage_request (coin_symbol (demo_coin ''BTC'')) \<and>
   getSocialMetrics outage_request (demo_coin ''BTC'') = Inr (zero_metrics (demo_coin ''BTC'')) \<and>
   verdict (getSocialMetrics outage_request) (demo_coin ''BTC'') = NoSocialData ''BTC'' \<and>
   jobId outage_event = Some ''job_2'' \<and> insertJob all_ok = DbOk \<and>
   topCoins outage_event = Some [demo_coin ''BTC'', demo_coin ''ETH'', demo_coin ''SOL''] \<and>
   map (\<lambda>c. topic_fetch_fails outage_request (coin_symbol c))
     [demo_coin ''BTC'', demo_coin ''ETH'', demo_coin ''SOL''] = [True, True, True] \<and>
   fst (signalAnalysisWorkflow all_ok (getSocialMetrics outage_request)
          (generateTradingSignal demo_gemini) outage_event fresh_db) =
     Inl (Error ''No coins with complete social data found in top 10'') \<and>
   console (snd (signalAnalysisWorkflow all_ok (getSocialMetrics outage_request)
          (generateTradingSignal demo_gemini) outage_event fresh_db)) =
     [NoSocialData ''BTC'', NoSocialData ''ETH'', NoSocialData ''SOL'']"
proof -
  let ?cs = "[demo_coin ''BTC'', demo_coin ''ETH'', demo_coin ''SOL'']"
  have h0: "topic_fetch_fails outage_request (coin_symbol (demo_coin ''BTC''))"
    by (simp add: topic_fetch_fails_def outage_request_def demo_coin_def topic_endpoint_def)
  have h1: "jobId outage_event = Some ''job_2''" "''job_2'' \<noteq> []" "insertJob all_ok = DbOk"
    "topCoins outage_event = Some ?cs" "?cs \<noteq> []"
    by (simp_all add: outage_event_def all_ok_def)
  have h2: "\<forall>c\<in>set ?cs. topic_fetch_fails outage_request (coin_symbol c)"
    by (simp add: topic_fetch_fails_def outage_request_def demo_coin_def topic_endpoint_def)
  have s: "coin_symbol (demo_coin ''BTC'') = ''BTC''" "coin_symbol (demo_coin ''ETH'') = ''ETH''"
    "coin_symbol (demo_coin ''SOL'') = ''SOL''" "console fresh_db = []"
    by (simp_all add: demo_coin_def fresh_db_def)
  from failed_topic_fetch_is_absent_data[of outage_request "demo_coin ''BTC''" outage_event
      "''job_2''" all_ok ?cs "generateTradingSignal demo_gemini" fresh_db] h0 h1 h2
  show ?thesis by (simp add: s)
qed

end
